theory Spec2Isabelle
  imports Complex_Main
begin

section \<open>JavaScript values\<close>

text \<open>
  The program is TypeScript running on Node. A JavaScript string is a sequence of
  UTF-16 code units; regular expressions without the \<^verbatim>\<open>u\<close> flag, \<^verbatim>\<open>trim\<close> and the
  relational operators all work on code units, so a string is modelled as the list of
  its code units. \<open>str\<close> turns an ASCII literal into that list.
\<close>

type_synonym jsstring = "nat list"

type_synonym bytes = "nat list"

definition str :: "string \<Rightarrow> jsstring" where
  "str s = map of_char s"

text \<open>
  A Number is an IEEE double. The program never computes with numbers, it only compares
  them, so a finite double is represented by the rational it denotes (both zeros by 0).
\<close>

datatype jsnum = NaN | NegInfinity | Finite rat | Infinity

text \<open>
  The values \<^verbatim>\<open>JSON.parse\<close> can return, and \<^verbatim>\<open>undefined\<close>. Arrays and objects
  carry the identity of the object (a reference), because \<^verbatim>\<open>===\<close> compares objects by
  identity; an object is the list of its own properties.
\<close>

datatype jsval =
    JUndefined
  | JNull
  | JBool bool
  | JNum jsnum
  | JStr jsstring
  | JArr nat "jsval list"
  | JObj nat "(jsstring \<times> jsval) list"

text \<open>
  What a \<^verbatim>\<open>throw\<close> carries: an instance of \<^verbatim>\<open>Error\<close> (or of a subclass) with its
  message, or a value that is not an \<^verbatim>\<open>Error\<close>, given by its \<^verbatim>\<open>String(...)\<close> conversion.
\<close>

datatype error_class = Error | TypeError | SyntaxError | OtherError jsstring

datatype thrown = Exception error_class jsstring | NonError jsstring

text \<open>\<^verbatim>\<open>error instanceof Error ? error.message : String(error)\<close>\<close>

fun message_of :: "thrown \<Rightarrow> jsstring" where
  "message_of (Exception c m) = m"
| "message_of (NonError s) = s"

text \<open>\<^verbatim>\<open>ToBoolean\<close>: the test behind \<^verbatim>\<open>!v\<close>, \<^verbatim>\<open>a || b\<close> and \<^verbatim>\<open>a && b\<close>.\<close>

fun truthy :: "jsval \<Rightarrow> bool" where
  "truthy JUndefined = False"
| "truthy JNull = False"
| "truthy (JBool b) = b"
| "truthy (JNum n) = (n \<noteq> NaN \<and> n \<noteq> Finite 0)"
| "truthy (JStr s) = (s \<noteq> [])"
| "truthy (JArr r xs) = True"
| "truthy (JObj r kvs) = True"

text \<open>The values that are not objects.\<close>

fun is_primitive :: "jsval \<Rightarrow> bool" where
  "is_primitive (JArr r xs) = False"
| "is_primitive (JObj r kvs) = False"
| "is_primitive v = True"

text \<open>\<^verbatim>\<open>Number::lessThan\<close>: \<open>None\<close> is the answer \<^verbatim>\<open>undefined\<close> a NaN operand gives.\<close>

fun num_lt :: "jsnum \<Rightarrow> jsnum \<Rightarrow> bool option" where
  "num_lt NaN y = None"
| "num_lt x NaN = None"
| "num_lt (Finite x) (Finite y) = Some (x < y)"
| "num_lt Infinity y = Some False"
| "num_lt x Infinity = Some True"
| "num_lt x NegInfinity = Some False"
| "num_lt NegInfinity y = Some True"

text \<open>\<^verbatim>\<open>Number::equal\<close>: NaN equals nothing.\<close>

definition num_eq :: "jsnum \<Rightarrow> jsnum \<Rightarrow> bool" where
  "num_eq x y = (x \<noteq> NaN \<and> x = y)"

text \<open>Strict equality \<^verbatim>\<open>===\<close>.\<close>

fun strict_eq :: "jsval \<Rightarrow> jsval \<Rightarrow> bool" where
  "strict_eq JUndefined JUndefined = True"
| "strict_eq JNull JNull = True"
| "strict_eq (JBool a) (JBool b) = (a = b)"
| "strict_eq (JNum a) (JNum b) = num_eq a b"
| "strict_eq (JStr a) (JStr b) = (a = b)"
| "strict_eq (JArr r xs) (JArr r' ys) = (r = r')"
| "strict_eq (JObj r xs) (JObj r' ys) = (r = r')"
| "strict_eq a b = False"

text \<open>Strings compare by code units, lexicographically.\<close>

fun str_lt :: "jsstring \<Rightarrow> jsstring \<Rightarrow> bool" where
  "str_lt [] [] = False"
| "str_lt [] (y # ys) = True"
| "str_lt (x # xs) [] = False"
| "str_lt (x # xs) (y # ys) = (x < y \<or> (x = y \<and> str_lt xs ys))"

text \<open>
  The request body \<open>generateImage\<close> builds for the Titan image generator: the object
  literal of the source, field by field (\<open>seed\<close> is spread in only when it is defined).
\<close>

record TextToImageRequest =
  taskType :: jsstring
  textToImageParams_text :: jsstring
  numberOfImages :: jsnum
  width :: jsnum
  height :: jsnum
  quality :: jsstring
  cfgScale :: jsnum
  seed :: "jsnum option"

text \<open>Sequencing of steps that may throw: the first \<open>Inl\<close> ends the computation.\<close>

definition and_then :: "'e + 'a \<Rightarrow> ('a \<Rightarrow> 'e + 'b) \<Rightarrow> 'e + 'b" where
  "and_then r f = (case r of Inl e \<Rightarrow> Inl e | Inr v \<Rightarrow> f v)"

text \<open>
  The functions of the JavaScript engine and of Node that the program calls and does not
  define. They are parameters of the model: \<^verbatim>\<open>JSON.parse\<close>, \<^verbatim>\<open>JSON.stringify\<close> of the
  request body, \<^verbatim>\<open>new TextDecoder().decode\<close>, \<^verbatim>\<open>Buffer.from(v, 'base64')\<close> on a
  string (it never throws) and on any other value, and the two conversions between strings
  and numbers that the relational operators may apply, \<^verbatim>\<open>StringToNumber\<close> and
  \<^verbatim>\<open>Number::toString\<close> (both total).
\<close>

record runtime =
  JSON_parse :: "jsstring \<Rightarrow> thrown + jsval"
  JSON_stringify :: "TextToImageRequest \<Rightarrow> jsstring"
  TextDecoder_decode :: "bytes \<Rightarrow> jsstring"
  base64_decode :: "jsstring \<Rightarrow> bytes"
  Buffer_from_other :: "jsval \<Rightarrow> thrown + bytes"
  StringToNumber :: "jsstring \<Rightarrow> jsnum"
  NumberToString :: "jsnum \<Rightarrow> jsstring"

text \<open>
  \<^verbatim>\<open>ToString\<close> on the values of the model. An object or array made by \<^verbatim>\<open>JSON.parse\<close>
  has the prototype \<^verbatim>\<open>Object.prototype\<close> or \<^verbatim>\<open>Array.prototype\<close>, and none of its own
  properties is callable. So \<^verbatim>\<open>OrdinaryToPrimitive\<close> finds no primitive through
  \<^verbatim>\<open>valueOf\<close> (its own one is not callable, the inherited one returns the object), and
  through \<^verbatim>\<open>toString\<close> it gets \<^verbatim>\<open>[object Object]\<close> from the inherited method, or, when
  the object has an own property \<^verbatim>\<open>toString\<close>, nothing: then it throws a TypeError (the
  message is V8's). An array has no own named property; its \<^verbatim>\<open>toString\<close> joins the
  strings of its elements with commas, \<^verbatim>\<open>null\<close> and \<^verbatim>\<open>undefined\<close> giving the empty
  string, and throws what an element throws.
\<close>

definition cannot_convert :: thrown where
  "cannot_convert = Exception TypeError (str ''Cannot convert object to primitive value'')"

fun ToString :: "runtime \<Rightarrow> jsval \<Rightarrow> thrown + jsstring"
  and join_elements :: "runtime \<Rightarrow> jsval list \<Rightarrow> thrown + jsstring" where
  "ToString rt JUndefined = Inr (str ''undefined'')"
| "ToString rt JNull = Inr (str ''null'')"
| "ToString rt (JBool b) = Inr (if b then str ''true'' else str ''false'')"
| "ToString rt (JNum n) = Inr (NumberToString rt n)"
| "ToString rt (JStr s) = Inr s"
| "ToString rt (JObj r kvs) =
     (case map_of kvs (str ''toString'') of
        None \<Rightarrow> Inr (str ''[object Object]'')
      | Some own \<Rightarrow> Inl cannot_convert)"
| "ToString rt (JArr r xs) = join_elements rt xs"
| "join_elements rt [] = Inr []"
| "join_elements rt (x # xs) =
     and_then (case x of JUndefined \<Rightarrow> Inr [] | JNull \<Rightarrow> Inr [] | _ \<Rightarrow> ToString rt x)
       (\<lambda>first. if xs = [] then Inr first
                else and_then (join_elements rt xs) (\<lambda>rest. Inr (first @ [44] @ rest)))"

text \<open>
  The primitive values, and \<^verbatim>\<open>ToPrimitive\<close> with the hint \<^verbatim>\<open>number\<close>, which the
  relational operators apply to each operand: a primitive is kept, an array or object is
  turned into its string, or throws.
\<close>

datatype primitive = PUndefined | PNull | PBool bool | PNum jsnum | PStr jsstring

fun ToPrimitive :: "runtime \<Rightarrow> jsval \<Rightarrow> thrown + primitive" where
  "ToPrimitive rt JUndefined = Inr PUndefined"
| "ToPrimitive rt JNull = Inr PNull"
| "ToPrimitive rt (JBool b) = Inr (PBool b)"
| "ToPrimitive rt (JNum n) = Inr (PNum n)"
| "ToPrimitive rt (JStr s) = Inr (PStr s)"
| "ToPrimitive rt (JArr r xs) = and_then (ToString rt (JArr r xs)) (\<lambda>s. Inr (PStr s))"
| "ToPrimitive rt (JObj r kvs) = and_then (ToString rt (JObj r kvs)) (\<lambda>s. Inr (PStr s))"

fun ToNumber :: "runtime \<Rightarrow> primitive \<Rightarrow> jsnum" where
  "ToNumber rt PUndefined = NaN"
| "ToNumber rt PNull = Finite 0"
| "ToNumber rt (PBool b) = Finite (if b then 1 else 0)"
| "ToNumber rt (PNum n) = n"
| "ToNumber rt (PStr s) = StringToNumber rt s"

text \<open>
  \<^verbatim>\<open>IsLessThan\<close>: the left operand is made primitive, then the right one; two strings
  compare as strings, anything else as numbers.
\<close>

fun IsLessThan_prim :: "runtime \<Rightarrow> primitive \<Rightarrow> primitive \<Rightarrow> bool option" where
  "IsLessThan_prim rt (PStr x) (PStr y) = Some (str_lt x y)"
| "IsLessThan_prim rt px py = num_lt (ToNumber rt px) (ToNumber rt py)"

definition IsLessThan :: "runtime \<Rightarrow> jsval \<Rightarrow> jsval \<Rightarrow> thrown + bool option" where
  "IsLessThan rt a b =
     and_then (ToPrimitive rt a) (\<lambda>px.
     and_then (ToPrimitive rt b) (\<lambda>py. Inr (IsLessThan_prim rt px py)))"

text \<open>
  \<^verbatim>\<open>a >= b\<close> is false when \<^verbatim>\<open>a < b\<close> is true or undefined, and true otherwise; it
  throws what the conversion of an operand throws.
\<close>

definition js_ge :: "runtime \<Rightarrow> jsval \<Rightarrow> jsval \<Rightarrow> thrown + bool" where
  "js_ge rt a b = and_then (IsLessThan rt a b) (\<lambda>less. Inr (less = Some False))"

text \<open>
  Property reads. \<open>get_named v k\<close> is \<^verbatim>\<open>v.k\<close> for the names the program reads from
  parsed JSON (\<^verbatim>\<open>images\<close>, \<^verbatim>\<open>score\<close>, \<^verbatim>\<open>assertionsMet\<close>, \<^verbatim>\<open>tone\<close>,
  \<^verbatim>\<open>explanation\<close>): an own property of an object, \<^verbatim>\<open>undefined\<close> on every other value
  but \<^verbatim>\<open>null\<close> and \<^verbatim>\<open>undefined\<close>, which throw (the message is V8's).
  \<open>get_length\<close> is \<^verbatim>\<open>v.length\<close> and \<open>get_index0\<close> is \<^verbatim>\<open>v[0]\<close>.
\<close>

definition cannot_read :: "jsstring \<Rightarrow> jsstring \<Rightarrow> thrown" where
  "cannot_read what k =
     Exception TypeError
       (str ''Cannot read properties of '' @ what @ str '' (reading '' @ [39] @ k @ [39]
        @ str '')'')"

definition own_property :: "(jsstring \<times> jsval) list \<Rightarrow> jsstring \<Rightarrow> jsval" where
  "own_property kvs k = (case map_of kvs k of Some v \<Rightarrow> v | None \<Rightarrow> JUndefined)"

fun get_named :: "jsval \<Rightarrow> jsstring \<Rightarrow> thrown + jsval" where
  "get_named JUndefined k = Inl (cannot_read (str ''undefined'') k)"
| "get_named JNull k = Inl (cannot_read (str ''null'') k)"
| "get_named (JObj r kvs) k = Inr (own_property kvs k)"
| "get_named v k = Inr JUndefined"

fun get_length :: "jsval \<Rightarrow> thrown + jsval" where
  "get_length JUndefined = Inl (cannot_read (str ''undefined'') (str ''length''))"
| "get_length JNull = Inl (cannot_read (str ''null'') (str ''length''))"
| "get_length (JStr s) = Inr (JNum (Finite (of_nat (length s))))"
| "get_length (JArr r xs) = Inr (JNum (Finite (of_nat (length xs))))"
| "get_length (JObj r kvs) = Inr (own_property kvs (str ''length''))"
| "get_length v = Inr JUndefined"

fun get_index0 :: "jsval \<Rightarrow> thrown + jsval" where
  "get_index0 JUndefined = Inl (cannot_read (str ''undefined'') (str ''0''))"
| "get_index0 JNull = Inl (cannot_read (str ''null'') (str ''0''))"
| "get_index0 (JStr s) = Inr (case s of [] \<Rightarrow> JUndefined | c # cs \<Rightarrow> JStr [c])"
| "get_index0 (JArr r xs) = Inr (case xs of [] \<Rightarrow> JUndefined | x # rest \<Rightarrow> x)"
| "get_index0 (JObj r kvs) = Inr (own_property kvs (str ''0''))"
| "get_index0 v = Inr JUndefined"

section \<open>Regular expressions and string methods\<close>

text \<open>
  The four regular expressions of the program are sequences of one-character matchers,
  some of them under a greedy star. \<open>match_here\<close> is the backtracking matcher anchored
  at the start of the subject: a star first tries one more character and falls back to
  the rest of the pattern when that fails. It returns the matched text and what follows.
\<close>

definition is_space :: "nat \<Rightarrow> bool" where
  "is_space c \<longleftrightarrow>
     c \<in> {9, 10, 11, 12, 13, 32, 160, 5760, 8232, 8233, 8239, 8287, 12288, 65279}
     \<or> (8192 \<le> c \<and> c \<le> 8202)"

datatype char_class = Ch nat | Space | AnyChar

fun accepts :: "char_class \<Rightarrow> nat \<Rightarrow> bool" where
  "accepts (Ch c) x = (x = c)"
| "accepts Space x = is_space x"
| "accepts AnyChar x = True"

datatype item = One char_class | Star char_class

type_synonym regex = "item list"

fun match_here :: "regex \<Rightarrow> jsstring \<Rightarrow> (jsstring \<times> jsstring) option" where
  "match_here [] s = Some ([], s)"
| "match_here (One c # p) [] = None"
| "match_here (One c # p) (x # s) =
     (if accepts c x
      then (case match_here p s of Some (m, r) \<Rightarrow> Some (x # m, r) | None \<Rightarrow> None)
      else None)"
| "match_here (Star c # p) [] = match_here p []"
| "match_here (Star c # p) (x # s) =
     (if accepts c x
      then (case match_here (Star c # p) s of
              Some (m, r) \<Rightarrow> Some (x # m, r)
            | None \<Rightarrow> match_here p (x # s))
      else match_here p (x # s))"

text \<open>The leftmost match: the text before it, the match, the text after it.\<close>

fun search :: "regex \<Rightarrow> jsstring \<Rightarrow> (jsstring \<times> jsstring \<times> jsstring) option" where
  "search p [] = (case match_here p [] of Some (m, r) \<Rightarrow> Some ([], m, r) | None \<Rightarrow> None)"
| "search p (x # s) =
     (case match_here p (x # s) of
        Some (m, r) \<Rightarrow> Some ([], m, r)
      | None \<Rightarrow> (case search p s of Some (pre, m, r) \<Rightarrow> Some (x # pre, m, r) | None \<Rightarrow> None))"

text \<open>\<^verbatim>\<open>s.replace(re, repl)\<close> for a regular expression without the \<^verbatim>\<open>g\<close> flag.\<close>

definition replace_first :: "regex \<Rightarrow> jsstring \<Rightarrow> jsstring \<Rightarrow> jsstring" where
  "replace_first p repl s =
     (case search p s of None \<Rightarrow> s | Some (pre, m, r) \<Rightarrow> pre @ repl @ r)"

text \<open>
  \<^verbatim>\<open>s.replace(re, repl)\<close> with the \<^verbatim>\<open>g\<close> flag: every match from left to right, the
  next one sought where the last one ended (one character further after an empty match).
  The first argument counts the characters of the last match still to be skipped.
\<close>

fun replace_all_from :: "nat \<Rightarrow> regex \<Rightarrow> jsstring \<Rightarrow> jsstring \<Rightarrow> jsstring" where
  "replace_all_from k p repl [] =
     (if k = 0 then (case match_here p [] of Some mr \<Rightarrow> repl | None \<Rightarrow> []) else [])"
| "replace_all_from k p repl (x # s) =
     (if 0 < k then replace_all_from (k - 1) p repl s
      else (case match_here p (x # s) of
              None \<Rightarrow> x # replace_all_from 0 p repl s
            | Some (m, r) \<Rightarrow>
                (if m = [] then repl @ x # replace_all_from 0 p repl s
                 else repl @ replace_all_from (length m - 1) p repl s)))"

definition replace_all :: "regex \<Rightarrow> jsstring \<Rightarrow> jsstring \<Rightarrow> jsstring" where
  "replace_all p repl s = replace_all_from 0 p repl s"

text \<open>\<^verbatim>\<open>s.match(re)\<close> without the \<^verbatim>\<open>g\<close> flag: element 0 of the result, or null.\<close>

definition str_match :: "regex \<Rightarrow> jsstring \<Rightarrow> jsstring option" where
  "str_match p s = (case search p s of None \<Rightarrow> None | Some (pre, m, r) \<Rightarrow> Some m)"

text \<open>\<^verbatim>\<open>s.trim()\<close> strips the characters \<^verbatim>\<open>\s\<close> matches from both ends.\<close>

definition trim :: "jsstring \<Rightarrow> jsstring" where
  "trim s = rev (dropWhile is_space (rev (dropWhile is_space s)))"

definition literal :: "jsstring \<Rightarrow> regex" where
  "literal s = map (\<lambda>c. One (Ch c)) s"

text \<open>\<^verbatim>\<open>xs.join(sep)\<close> on an array of strings.\<close>

fun join :: "jsstring \<Rightarrow> jsstring list \<Rightarrow> jsstring" where
  "join sep [] = []"
| "join sep [x] = x"
| "join sep (x # y # ys) = x @ sep @ join sep (y # ys)"


text \<open>A destructuring default \<^verbatim>\<open>{ x = d } = options\<close>: \<open>d\<close> when \<open>x\<close> is undefined.\<close>

definition or_default :: "'a \<Rightarrow> 'a option \<Rightarrow> 'a" where
  "or_default d v = (case v of None \<Rightarrow> d | Some x \<Rightarrow> x)"

text \<open>Truthiness of an optional string: defined and not empty.\<close>

definition present :: "jsstring option \<Rightarrow> bool" where
  "present s = (case s of None \<Rightarrow> False | Some t \<Rightarrow> t \<noteq> [])"

section \<open>The data model of the source\<close>

text \<open>The string enum \<^verbatim>\<open>ImageTone\<close> and \<^verbatim>\<open>Object.values(ImageTone)\<close>.\<close>

definition DREAMY :: jsstring where
  "DREAMY = str ''dreamy''"

definition PHOTO_REALISTIC :: jsstring where
  "PHOTO_REALISTIC = str ''photo-realistic''"

definition BLACK_AND_WHITE :: jsstring where
  "BLACK_AND_WHITE = str ''black-and-white''"

definition ImageTone_values :: "jsstring list" where
  "ImageTone_values = [DREAMY, PHOTO_REALISTIC, BLACK_AND_WHITE]"

record ImageConfig =
  cfg_width :: "jsnum option"
  cfg_height :: "jsnum option"
  cfg_quality :: "jsstring option"
  cfg_cfgScale :: "jsnum option"
  cfg_seed :: "jsnum option"

record ImageGenerationInput =
  prompt :: jsstring
  gen_modelId :: "jsstring option"
  gen_region :: "jsstring option"
  imageConfig :: "ImageConfig option"

text \<open>
  \<^verbatim>\<open>base64Image\<close> is \<^verbatim>\<open>responseBody.images[0]\<close> as parsed: typed a string, any truthy
  value at run time.
\<close>

record ImageGenerationResult =
  res_imageBytes :: bytes
  res_base64Image :: jsval
  res_modelId :: jsstring

text \<open>
  \<^verbatim>\<open>assertionPrompt\<close> is declared required; a caller can still leave it out at run time,
  and the source tests for that, so the field is optional here.
\<close>

record ImageAssertionsInput =
  imageBytes :: "bytes option"
  base64Image :: "jsstring option"
  assertionPrompt :: "jsstring option"
  modelId :: "jsstring option"
  confidenceThreshold :: "jsnum option"
  temperature :: "jsnum option"
  topP :: "jsnum option"
  maxTokensToSample :: "jsnum option"

text \<open>
  The verdict. Its fields are what the source copies out of the parsed reply, which is
  untyped: any JSON value, or \<^verbatim>\<open>undefined\<close> for a missing key.
\<close>

record ImageAssertionResponse =
  assertionsMet :: jsval
  score :: jsval
  tone :: jsval
  explanation :: jsval

text \<open>The instance: \<^verbatim>\<open>this.region\<close>; \<^verbatim>\<open>this.bedrock\<close> is the client of that region.\<close>

record ImageAssertions =
  region :: jsstring

definition new_ImageAssertions :: "jsstring option \<Rightarrow> ImageAssertions" where
  "new_ImageAssertions options_region =
     \<lparr>region = (if present options_region then or_default [] options_region
                else str ''us-east-1'')\<rparr>"

section \<open>The inference collaborator\<close>

text \<open>
  The two commands the program sends to Bedrock and the parts of the replies it reads.
  A client is identified by its region; \<open>bedrock\<close> is the behaviour of the service,
  which either throws or replies.
\<close>

record InvokeModelCommand =
  invoke_modelId :: jsstring
  invoke_body :: jsstring
  contentType :: jsstring
  accept :: jsstring

record InvokeModelResponse =
  body :: "bytes option"

record ConverseCommand =
  converse_modelId :: jsstring
  content_text :: jsstring
  content_image_format :: jsstring
  content_image_bytes :: bytes
  inference_temperature :: jsnum
  inference_topP :: jsnum
  inference_maxTokens :: jsnum

record ContentBlock =
  block_text :: "jsstring option"

record Message =
  content :: "ContentBlock list option"

record ConverseOutput =
  message :: "Message option"

record ConverseResponse =
  response_output :: "ConverseOutput option"

record bedrock =
  send_invoke :: "jsstring \<Rightarrow> InvokeModelCommand \<Rightarrow> thrown + InvokeModelResponse"
  send_converse :: "jsstring \<Rightarrow> ConverseCommand \<Rightarrow> thrown + ConverseResponse"

section \<open>generateImage\<close>

text \<open>\<^verbatim>\<open>Buffer.from(base64Image, 'base64')\<close>\<close>

fun Buffer_from :: "runtime \<Rightarrow> jsval \<Rightarrow> thrown + bytes" where
  "Buffer_from rt (JStr s) = Inr (base64_decode rt s)"
| "Buffer_from rt v = Buffer_from_other rt v"

text \<open>The body of the \<^verbatim>\<open>try\<close> block (lines 165 to 191).\<close>

definition generateImage_try ::
  "runtime \<Rightarrow> bedrock \<Rightarrow> jsstring \<Rightarrow> jsstring \<Rightarrow> InvokeModelCommand
    \<Rightarrow> thrown + ImageGenerationResult" where
  "generateImage_try rt aws client modelId' command =
     and_then (send_invoke aws client command) (\<lambda>response.
       case body response of
         None \<Rightarrow> Inl (Exception Error (str ''No response body received from model''))
       | Some response_body \<Rightarrow>
           and_then (JSON_parse rt (TextDecoder_decode rt response_body)) (\<lambda>responseBody.
           and_then (get_named responseBody (str ''images'')) (\<lambda>images.
           and_then (if \<not> truthy images then Inr True
                     else and_then (get_length images)
                            (\<lambda>n. Inr (strict_eq n (JNum (Finite 0))))) (\<lambda>no_images.
             if no_images then Inl (Exception Error (str ''No images returned from model''))
             else
               and_then (get_index0 images) (\<lambda>base64Image'.
                 if \<not> truthy base64Image'
                 then Inl (Exception Error (str ''No image data found in response''))
                 else
                   and_then (Buffer_from rt base64Image') (\<lambda>imageBytes'.
                     Inr \<lparr>res_imageBytes = imageBytes',
                          res_base64Image = base64Image',
                          res_modelId = modelId'\<rparr>))))))"

definition empty_ImageConfig :: ImageConfig where
  "empty_ImageConfig =
     \<lparr>cfg_width = None, cfg_height = None, cfg_quality = None, cfg_cfgScale = None,
      cfg_seed = None\<rparr>"

text \<open>
  Lines 120 to 162: the defaults, the client and the command. A client is determined by
  its region: \<^verbatim>\<open>this.bedrock\<close> when the region is the instance's, a new client of the
  requested region otherwise.
\<close>

definition generation_modelId :: "ImageGenerationInput \<Rightarrow> jsstring" where
  "generation_modelId options =
     or_default (str ''amazon.titan-image-generator-v2:0'') (gen_modelId options)"

definition generation_client :: "ImageAssertions \<Rightarrow> ImageGenerationInput \<Rightarrow> jsstring" where
  "generation_client this options = or_default (region this) (gen_region options)"

definition generation_command :: "runtime \<Rightarrow> ImageGenerationInput \<Rightarrow> InvokeModelCommand" where
  "generation_command rt options =
     (let imageConfig' = or_default empty_ImageConfig (imageConfig options);
          requestBody =
            \<lparr>taskType = str ''TEXT_IMAGE'',
             textToImageParams_text = prompt options,
             numberOfImages = Finite 1,
             width = or_default (Finite 1024) (cfg_width imageConfig'),
             height = or_default (Finite 1024) (cfg_height imageConfig'),
             quality = or_default (str ''premium'') (cfg_quality imageConfig'),
             cfgScale = or_default (Finite 8) (cfg_cfgScale imageConfig'),
             seed = cfg_seed imageConfig'\<rparr>
      in \<lparr>invoke_modelId = generation_modelId options,
          invoke_body = JSON_stringify rt requestBody,
          contentType = str ''application/json'',
          accept = str ''application/json''\<rparr>)"

text \<open>The \<^verbatim>\<open>catch\<close> clause wraps whatever the \<^verbatim>\<open>try\<close> block throws.\<close>

definition generateImage ::
  "runtime \<Rightarrow> bedrock \<Rightarrow> ImageAssertions \<Rightarrow> ImageGenerationInput
    \<Rightarrow> thrown + ImageGenerationResult" where
  "generateImage rt aws this options =
     (case generateImage_try rt aws (generation_client this options)
             (generation_modelId options) (generation_command rt options) of
        Inr generated \<Rightarrow> Inr generated
      | Inl error \<Rightarrow>
          Inl (Exception Error (str ''Image generation failed: '' @ message_of error)))"

section \<open>validateImage\<close>

text \<open>The template literal \<^verbatim>\<open>validationPrompt\<close>, line by line.\<close>

definition validationPrompt :: "jsstring \<Rightarrow> jsstring" where
  \<open>validationPrompt assertionPrompt' = join [10]
     [str ''Analyze the following image and assertions, and return a single JSON object with this structure:'',
      [],
      str ''{'',
      str ''  "assertionsMet": boolean,'',
      str ''  "score": number,             // confidence score 0-10'',
      str ''  "tone": string,              // tone classification'',
      str ''  "explanation": string        // explanation of the evaluation'',
      str ''}'',
      [],
      str ''SCORING GUIDELINES:'',
      str ''10: All assertions perfectly match the image content and style.'',
      str ''7-9: Most assertions strongly match with minor discrepancies.'',
      str ''4-6: Some assertions partially match with significant gaps.'',
      str ''0-3: Few or no assertions match the image content.'',
      [],
      str ''TONE CLASSIFICATION:'',
      str ''The "tone" must be one of: '' @ join (str '', '') ImageTone_values,
      [],
      str ''Definitions:'',
      str ''- "dreamy": surreal, soft, ethereal atmosphere; may appear otherworldly or hazy, not sharp or high contrast. Suitable for styles that evoke a calm or fantastical feeling.'',
      str ''- "photo-realistic": highly detailed and mimics real-world photography.'',
      str ''- "black-and-white": grayscale image with no color, may vary in tone depending on contrast and texture.'',
      [],
      str ''Evaluate the image against this assertion:'',
      str ''"'' @ assertionPrompt' @ str ''"'',
      [],
      str ''IMPORTANT: "assertionsMet" should be true only if all key details in the assertion are visually matched in the image.'']\<close>

text \<open>
  The regular expressions of lines 296 to 301:
  \<^verbatim>\<open>/```json\s*/\<close>, \<^verbatim>\<open>/```\s*/\<close>, \<^verbatim>\<open>/\n/g\<close> and \<^verbatim>\<open>/\{.*\}/s\<close> (with the \<^verbatim>\<open>s\<close>
  flag the dot matches every character).
\<close>

definition re_fence_start :: regex where
  "re_fence_start = literal (str ''```json'') @ [Star Space]"

definition re_fence_end :: regex where
  "re_fence_end = literal (str ''```'') @ [Star Space]"

definition re_newline :: regex where
  "re_newline = [One (Ch 10)]"

definition re_braces :: regex where
  "re_braces = [One (Ch 123), Star AnyChar, One (Ch 125)]"

text \<open>\<^verbatim>\<open>cleanedResponse\<close> (lines 295 to 299).\<close>

definition cleanedResponse :: "jsstring \<Rightarrow> jsstring" where
  "cleanedResponse content' =
     trim (replace_all re_newline []
       (replace_first re_fence_end [] (replace_first re_fence_start [] content')))"

text \<open>\<^verbatim>\<open>jsonMatch\<close> (line 301): \<open>None\<close> is null, \<open>Some m\<close> has \<open>m\<close> as element 0.\<close>

definition jsonMatch :: "jsstring \<Rightarrow> jsstring option" where
  "jsonMatch content' = str_match re_braces (cleanedResponse content')"

text \<open>
  \<^verbatim>\<open>(response.output?.message?.content as ContentBlock[])[0]?.text\<close>: the optional chain
  gives \<^verbatim>\<open>undefined\<close> when a link is missing, and indexing \<^verbatim>\<open>undefined\<close> throws.
\<close>

definition first_text :: "ConverseResponse \<Rightarrow> thrown + jsstring option" where
  "first_text response =
     (case (case response_output response of
              None \<Rightarrow> None
            | Some out \<Rightarrow> (case message out of None \<Rightarrow> None | Some msg \<Rightarrow> content msg)) of
        None \<Rightarrow> Inl (cannot_read (str ''undefined'') (str ''0''))
      | Some [] \<Rightarrow> Inr None
      | Some (block # blocks) \<Rightarrow> Inr (block_text block))"

text \<open>
  Lines 308 to 316: the threshold gate and the verdict. \<^verbatim>\<open>result.score\<close> is read first
  and throws on \<^verbatim>\<open>null\<close>; the comparison throws when the score is an object that has no
  primitive value; the right operand of \<^verbatim>\<open>&&\<close> is read only when the comparison is true,
  otherwise the comparison's \<^verbatim>\<open>false\<close> is the value.
\<close>

definition verdict_of :: "runtime \<Rightarrow> jsnum \<Rightarrow> jsval \<Rightarrow> thrown + ImageAssertionResponse" where
  "verdict_of rt confidenceThreshold' result =
     and_then (get_named result (str ''score'')) (\<lambda>result_score.
     and_then (js_ge rt result_score (JNum confidenceThreshold')) (\<lambda>reached.
     and_then (if reached then get_named result (str ''assertionsMet'')
               else Inr (JBool False)) (\<lambda>assertionsMet'.
     and_then (get_named result (str ''tone'')) (\<lambda>result_tone.
     and_then (get_named result (str ''explanation'')) (\<lambda>result_explanation.
       Inr \<lparr>assertionsMet = assertionsMet',
            score = result_score,
            tone = result_tone,
            explanation = result_explanation\<rparr>)))))"

text \<open>Lines 287 to 316: from the reply to the verdict.\<close>

definition read_reply :: "runtime \<Rightarrow> jsnum \<Rightarrow> ConverseResponse \<Rightarrow> thrown + ImageAssertionResponse" where
  "read_reply rt confidenceThreshold' response =
     and_then (first_text response) (\<lambda>content'.
       if \<not> present content'
       then Inl (Exception Error (str ''No validation output received from model''))
       else
         case jsonMatch (or_default [] content') of
           None \<Rightarrow> Inl (Exception Error (str ''Model response did not include a valid JSON block''))
         | Some jsonMatch0 \<Rightarrow>
             and_then (JSON_parse rt (trim jsonMatch0)) (verdict_of rt confidenceThreshold'))"

text \<open>
  The defaults \<^verbatim>\<open>0.3\<close> and \<^verbatim>\<open>0.7\<close> of lines 213 and 214 are the doubles nearest to
  these decimals: \<open>5404319552844595 / 2 ^ 54\<close> and \<open>3152519739159347 / 2 ^ 52\<close>.
\<close>

definition double_0_3 :: jsnum where
  "double_0_3 = Finite (5404319552844595 / 18014398509481984)"

definition double_0_7 :: jsnum where
  "double_0_7 = Finite (3152519739159347 / 4503599627370496)"

text \<open>The command of lines 257 to 284.\<close>

definition validation_command :: "runtime \<Rightarrow> ImageAssertionsInput \<Rightarrow> jsstring \<Rightarrow> ConverseCommand" where
  "validation_command rt options assertionPrompt' =
     \<lparr>converse_modelId = or_default (str ''us.amazon.nova-premier-v1:0'') (modelId options),
      content_text = validationPrompt assertionPrompt',
      content_image_format = str ''png'',
      content_image_bytes =
        (case imageBytes options of
           Some given \<Rightarrow> given
         | None \<Rightarrow>
             base64_decode rt
               (if present (base64Image options) then or_default [] (base64Image options)
                else [])),
      inference_temperature = or_default double_0_3 (temperature options),
      inference_topP = or_default double_0_7 (topP options),
      inference_maxTokens = or_default (Finite 500) (maxTokensToSample options)\<rparr>"

text \<open>
  \<open>validateImage\<close> returns the commands it has sent to the service, in order, and then
  either what it throws or the verdict.
\<close>

definition validateImage ::
  "runtime \<Rightarrow> bedrock \<Rightarrow> ImageAssertions \<Rightarrow> ImageAssertionsInput
    \<Rightarrow> ConverseCommand list \<times> (thrown + ImageAssertionResponse)" where
  "validateImage rt aws this options =
     (if imageBytes options = None \<and> \<not> present (base64Image options)
      then ([], Inl (Exception Error (str ''Either imageBytes or base64Image must be provided'')))
      else if \<not> present (assertionPrompt options)
      then ([], Inl (Exception Error (str ''Assertion prompt is required'')))
      else
        (let command = validation_command rt options (or_default [] (assertionPrompt options))
         in ([command],
             and_then (send_converse aws (region this) command)
               (read_reply rt (or_default (Finite 7) (confidenceThreshold options))))))"

section \<open>The matcher toSatisfyImageAssertions\<close>

text \<open>
  \<open>expected\<close> is given by \<^verbatim>\<open>Object.entries(expected)\<close>: its own properties, key and
  value, in the order of the entries. The values are values of the model: what
  \<^verbatim>\<open>JSON.parse\<close> or a literal of the declared types gives, or \<^verbatim>\<open>undefined\<close>.
  \<^verbatim>\<open>this.utils\<close> of the test framework prints the two values for the message.
\<close>

record jest_utils =
  printReceived :: "ImageAssertionResponse \<Rightarrow> jsstring"
  printExpected :: "(jsstring \<times> jsval) list \<Rightarrow> jsstring"

record CustomMatcherResult =
  pass :: bool
  message_text :: jsstring

text \<open>
  \<^verbatim>\<open>received[key]\<close> on a verdict, an object literal with four own properties and the
  prototype \<^verbatim>\<open>Object.prototype\<close>. For a name that \<^verbatim>\<open>Object.prototype\<close> defines the read
  gives a function or object of the engine (\<open>None\<close> here), which is strictly equal to no
  value of the model; for any other name it gives \<^verbatim>\<open>undefined\<close>.
\<close>

definition Object_prototype_names :: "jsstring list" where
  "Object_prototype_names =
     [str ''constructor'', str ''__defineGetter__'', str ''__defineSetter__'',
      str ''hasOwnProperty'', str ''__lookupGetter__'', str ''__lookupSetter__'',
      str ''isPrototypeOf'', str ''propertyIsEnumerable'', str ''toString'', str ''valueOf'',
      str ''__proto__'', str ''toLocaleString'']"

definition received_get :: "ImageAssertionResponse \<Rightarrow> jsstring \<Rightarrow> jsval option" where
  "received_get received key =
     (if key = str ''assertionsMet'' then Some (assertionsMet received)
      else if key = str ''score'' then Some (score received)
      else if key = str ''tone'' then Some (tone received)
      else if key = str ''explanation'' then Some (explanation received)
      else if key \<in> set Object_prototype_names then None
      else Some JUndefined)"

text \<open>
  The callback of \<^verbatim>\<open>every\<close> (lines 335 to 346). Only the comparison of the scores can
  throw.
\<close>

fun entry_matches ::
  "runtime \<Rightarrow> ImageAssertionResponse \<Rightarrow> jsstring \<times> jsval \<Rightarrow> thrown + bool" where
  "entry_matches rt received (key, v) =
     (if key = str ''assertionsMet'' then Inr (strict_eq (assertionsMet received) v)
      else if key = str ''score'' then js_ge rt (score received) v
      else if key = str ''tone'' then Inr (strict_eq (tone received) v)
      else Inr (case received_get received key of
                  None \<Rightarrow> False
                | Some own \<Rightarrow> strict_eq own v))"

text \<open>
  \<^verbatim>\<open>xs.every(f)\<close>: the elements in order, up to the first one for which \<open>f\<close> is false
  or throws.
\<close>

fun every :: "('a \<Rightarrow> thrown + bool) \<Rightarrow> 'a list \<Rightarrow> thrown + bool" where
  "every f [] = Inr True"
| "every f (x # xs) = and_then (f x) (\<lambda>holds. if holds then every f xs else Inr False)"

definition toSatisfyImageAssertions ::
  "runtime \<Rightarrow> jest_utils \<Rightarrow> ImageAssertionResponse \<Rightarrow> (jsstring \<times> jsval) list
    \<Rightarrow> thrown + CustomMatcherResult" where
  "toSatisfyImageAssertions rt utils received expected =
     and_then (every (entry_matches rt received) expected) (\<lambda>pass'.
       if pass'
       then Inr \<lparr>pass = True,
                 message_text =
                   str ''Expected '' @ printReceived utils received
                   @ str '' not to satisfy image assertions '' @ printExpected utils expected\<rparr>
       else Inr \<lparr>pass = False,
                 message_text =
                   str ''Expected '' @ printReceived utils received
                   @ str '' to satisfy image assertions '' @ printExpected utils expected\<rparr>)"

text \<open>The matcher returned a result, and the result passes.\<close>

definition passes :: "thrown + CustomMatcherResult \<Rightarrow> bool" where
  "passes outcome = (case outcome of Inl e \<Rightarrow> False | Inr result \<Rightarrow> pass result)"

section \<open>Notions used to state the properties\<close>

text \<open>
  The span from the first \<^verbatim>\<open>{\<close> (code unit 123) to the last \<^verbatim>\<open>}\<close> (code unit 125)
  of a string, if a \<^verbatim>\<open>}\<close> follows the first \<^verbatim>\<open>{\<close>: what the specification says
  the extraction takes. It is compared with the regular expression below.
\<close>

definition first_to_last_brace :: "jsstring \<Rightarrow> jsstring option" where
  "first_to_last_brace s =
     (case dropWhile (\<lambda>x. x \<noteq> 123) s of
        [] \<Rightarrow> None
      | b # t \<Rightarrow>
          (if 125 \<in> set t then Some (b # rev (dropWhile (\<lambda>x. x \<noteq> 125) (rev t))) else None))"


definition span_of_cleaned :: "jsstring \<Rightarrow> jsstring option" where
  "span_of_cleaned s = first_to_last_brace (filter (\<lambda>c. c \<noteq> 10) s)"

text \<open>A text wrapped in a markdown code fence: \<^verbatim>\<open>```json\<close>, a newline, the text, a
  newline, \<^verbatim>\<open>```\<close>.\<close>

definition in_code_fence :: "jsstring \<Rightarrow> jsstring" where
  "in_code_fence j = str ''```json'' @ [10] @ j @ [10] @ str ''```''"

text \<open>A reply of the model whose only content block is the text \<open>c\<close>.\<close>

definition text_reply :: "jsstring \<Rightarrow> ConverseResponse" where
  "text_reply c =
     \<lparr>response_output = Some \<lparr>message = Some \<lparr>content = Some [\<lparr>block_text = Some c\<rparr>]\<rparr>\<rparr>\<rparr>"

text \<open>The two errors of the precondition checks and the two of the reply's reading.\<close>

definition missing_image :: thrown where
  "missing_image = Exception Error (str ''Either imageBytes or base64Image must be provided'')"

definition missing_assertion :: thrown where
  "missing_assertion = Exception Error (str ''Assertion prompt is required'')"

definition no_output :: thrown where
  "no_output = Exception Error (str ''No validation output received from model'')"

definition no_json_block :: thrown where
  "no_json_block = Exception Error (str ''Model response did not include a valid JSON block'')"

text \<open>What the \<^verbatim>\<open>catch\<close> clause of \<open>generateImage\<close> throws for a failure with message \<open>m\<close>.\<close>

definition generation_failed :: "jsstring \<Rightarrow> thrown" where
  "generation_failed m = Exception Error (str ''Image generation failed: '' @ m)"

section \<open>Test doubles\<close>

text \<open>
  A service that gives fixed replies, and a runtime whose \<^verbatim>\<open>JSON.parse\<close> is the table of
  what the real one returns on the sample texts (a syntax error on any other text). They
  instantiate the theorems below at concrete inputs.
\<close>

definition mock_bedrock ::
  "thrown + InvokeModelResponse \<Rightarrow> thrown + ConverseResponse \<Rightarrow> bedrock" where
  "mock_bedrock invoke_reply converse_reply =
     \<lparr>send_invoke = (\<lambda>client command. invoke_reply),
      send_converse = (\<lambda>client command. converse_reply)\<rparr>"

definition cat_verdict_text :: jsstring where
  \<open>cat_verdict_text =
     str ''{"assertionsMet":true,"score":9,"tone":"photo-realistic","explanation":"An orange cat."}''\<close>

definition cat_verdict_fields :: "(jsstring \<times> jsval) list" where
  "cat_verdict_fields =
     [(str ''assertionsMet'', JBool True), (str ''score'', JNum (Finite 9)),
      (str ''tone'', JStr (str ''photo-realistic'')),
      (str ''explanation'', JStr (str ''An orange cat.''))]"

definition sepia_verdict_text :: jsstring where
  \<open>sepia_verdict_text =
     str ''{"assertionsMet":false,"score":42,"tone":"sepia","explanation":"Old photograph."}''\<close>

definition sepia_verdict_fields :: "(jsstring \<times> jsval) list" where
  "sepia_verdict_fields =
     [(str ''assertionsMet'', JBool False), (str ''score'', JNum (Finite 42)),
      (str ''tone'', JStr (str ''sepia'')),
      (str ''explanation'', JStr (str ''Old photograph.''))]"

definition quoting_verdict_text :: jsstring where
  \<open>quoting_verdict_text =
     str ''{"assertionsMet":true,"score":9,"tone":"dreamy","explanation":"```json"}''\<close>

definition quoting_unfenced_span :: jsstring where
  \<open>quoting_unfenced_span =
     str ''{"assertionsMet":true,"score":9,"tone":"dreamy","explanation":""}''\<close>

definition quoting_fenced_span :: jsstring where
  \<open>quoting_fenced_span =
     str ''{"assertionsMet":true,"score":9,"tone":"dreamy","explanation":"json"}''\<close>

definition quoting_fields :: "jsstring \<Rightarrow> (jsstring \<times> jsval) list" where
  "quoting_fields e =
     [(str ''assertionsMet'', JBool True), (str ''score'', JNum (Finite 9)),
      (str ''tone'', JStr (str ''dreamy'')), (str ''explanation'', JStr e)]"

definition no_images_key_text :: jsstring where
  "no_images_key_text = str ''{}''"

definition images_empty_text :: jsstring where
  \<open>images_empty_text = str ''{"images":[]}''\<close>

definition images_null_text :: jsstring where
  \<open>images_null_text = str ''{"images":[null]}''\<close>

definition images_blank_text :: jsstring where
  \<open>images_blank_text = str ''{"images":[""]}''\<close>

definition unconvertible_score_text :: jsstring where
  \<open>unconvertible_score_text = str ''{"score":{"toString":0}}''\<close>

definition unconvertible_score_fields :: "(jsstring \<times> jsval) list" where
  "unconvertible_score_fields =
     [(str ''score'', JObj 13 [(str ''toString'', JNum (Finite 0))])]"

definition sample_parse_table :: "(jsstring \<times> jsval) list" where
  "sample_parse_table =
     [(cat_verdict_text, JObj 1 cat_verdict_fields),
      (sepia_verdict_text, JObj 2 sepia_verdict_fields),
      (quoting_unfenced_span, JObj 3 (quoting_fields [])),
      (quoting_fenced_span, JObj 11 (quoting_fields (str ''json''))),
      (no_images_key_text, JObj 4 []),
      (images_empty_text, JObj 5 [(str ''images'', JArr 6 [])]),
      (images_null_text, JObj 7 [(str ''images'', JArr 8 [JNull])]),
      (images_blank_text, JObj 9 [(str ''images'', JArr 10 [JStr []])]),
      (unconvertible_score_text, JObj 12 unconvertible_score_fields)]"

definition sample_parse :: "jsstring \<Rightarrow> thrown + jsval" where
  "sample_parse s =
     (case map_of sample_parse_table s of
        Some v \<Rightarrow> Inr v
      | None \<Rightarrow> Inl (Exception SyntaxError (str ''Unexpected token'')))"

definition sample_runtime :: runtime where
  "sample_runtime =
     \<lparr>JSON_parse = sample_parse,
      JSON_stringify = (\<lambda>request. str ''{}''),
      TextDecoder_decode = (\<lambda>octets. octets),
      base64_decode = (\<lambda>s. s),
      Buffer_from_other = (\<lambda>v. Inl (Exception TypeError (str ''The first argument must be of type string''))),
      StringToNumber = (\<lambda>s. NaN),
      NumberToString = (\<lambda>n. str ''NaN'')\<rparr>"

definition sample_input :: "jsnum option \<Rightarrow> ImageAssertionsInput" where
  "sample_input threshold =
     \<lparr>imageBytes = Some [137, 80, 78, 71],
      base64Image = None,
      assertionPrompt = Some (str ''The image should contain an orange cat''),
      modelId = None,
      confidenceThreshold = threshold,
      temperature = None,
      topP = None,
      maxTokensToSample = None\<rparr>"

definition sample_generation :: ImageGenerationInput where
  "sample_generation =
     \<lparr>prompt = str ''A fluffy orange cat sitting on a windowsill'',
      gen_modelId = None, gen_region = None, imageConfig = None\<rparr>"

definition sample_verdict :: ImageAssertionResponse where
  "sample_verdict =
     \<lparr>assertionsMet = JBool True, score = JNum (Finite 9),
      tone = JStr PHOTO_REALISTIC, explanation = JStr (str ''An orange cat.'')\<rparr>"

definition throttled :: thrown where
  "throttled = Exception (OtherError (str ''ThrottlingException'')) (str ''Too many requests'')"

definition sample_utils :: jest_utils where
  "sample_utils =
     \<lparr>printReceived = (\<lambda>received. str ''received''),
      printExpected = (\<lambda>expected. str ''expected'')\<rparr>"

section \<open>Properties of the regular expressions\<close>

text \<open>
  What the matcher returns splits the subject. The four regular expressions of the source
  are then characterised by list functions: \<^verbatim>\<open>/\{.*\}/s\<close> matches from the first
  \<^verbatim>\<open>{\<close> to the last \<^verbatim>\<open>}\<close>, \<^verbatim>\<open>/\n/g\<close> replaced by the empty string filters the
  newlines out, and the two fence patterns match a literal and the white space after it.
\<close>

lemma match_here_sound: "match_here p s = Some (m, r) \<Longrightarrow> s = m @ r"
  by (induction p s arbitrary: m r rule: match_here.induct)
     (auto split: if_splits option.splits)

lemma search_sound: "search p s = Some (pre, m, r) \<Longrightarrow> s = pre @ m @ r"
  by (induction s arbitrary: pre m r)
     (auto split: option.splits dest: match_here_sound)

lemma accepts_Space: "accepts Space = is_space"
  by (rule ext) simp

lemma match_here_star:
  "match_here [Star c] s = Some (takeWhile (accepts c) s, dropWhile (accepts c) s)"
  by (induction s) auto

lemma match_here_literal_app:
  "match_here (literal l @ p) (l @ rest) =
     (case match_here p rest of Some (m, r) \<Rightarrow> Some (l @ m, r) | None \<Rightarrow> None)"
  by (induction l) (auto simp: literal_def split: option.splits)

lemma match_here_literal_prefix:
  "match_here (literal l @ p) s = Some (m, r) \<Longrightarrow> \<exists>rest. s = l @ rest"
proof (induction l arbitrary: s m r)
  case Nil
  then show ?case by simp
next
  case (Cons a l)
  then show ?case
    by (cases s) (auto simp: literal_def split: if_splits option.splits)
qed

lemma match_last:
  "match_here [Star AnyChar, One (Ch c)] s =
     (if c \<in> set s
      then Some (rev (dropWhile (\<lambda>x. x \<noteq> c) (rev s)), rev (takeWhile (\<lambda>x. x \<noteq> c) (rev s)))
      else None)"
  by (induction s) (auto simp: dropWhile_append takeWhile_append)

lemma match_here_braces:
  "match_here re_braces s =
     (case s of
        [] \<Rightarrow> None
      | b # t \<Rightarrow>
          (if b = 123 \<and> 125 \<in> set t
           then Some (b # rev (dropWhile (\<lambda>x. x \<noteq> 125) (rev t)),
                      rev (takeWhile (\<lambda>x. x \<noteq> 125) (rev t)))
           else None))"
  by (cases s) (simp_all add: re_braces_def match_last del: match_here.simps(5))

lemma search_braces_None: "125 \<notin> set s \<Longrightarrow> search re_braces s = None"
  by (induction s) (auto simp: match_here_braces)

lemma str_match_braces: "str_match re_braces s = first_to_last_brace s"
  unfolding str_match_def first_to_last_brace_def
  by (induction s) (auto simp: match_here_braces search_braces_None split: option.splits)

lemma replace_newline: "replace_all re_newline [] s = filter (\<lambda>c. c \<noteq> 10) s"
  unfolding replace_all_def re_newline_def
  by (induction s) auto

lemma replace_first_Nil: "replace_first p [] [] = []"
  by (auto simp: replace_first_def split: option.splits dest: match_here_sound)

lemma replace_first_Cons:
  "replace_first p [] (x # s) =
     (case match_here p (x # s) of Some (m, r) \<Rightarrow> r | None \<Rightarrow> x # replace_first p [] s)"
  by (auto simp: replace_first_def split: option.splits)


lemma str_fence3: "str ''```'' = [96, 96, 96]"
  by (simp add: str_def)

lemma str_fence_json: "str ''```json'' = [96, 96, 96, 106, 115, 111, 110]"
  by (simp add: str_def)

lemma is_space_simps:
  "is_space 10" "\<not> is_space 96" "\<not> is_space 123" "\<not> is_space 125"
  by (simp_all add: is_space_def)

lemma match_fence_end_hit:
  "match_here re_fence_end (96 # 96 # 96 # rest) =
     Some ([96, 96, 96] @ takeWhile is_space rest, dropWhile is_space rest)"
  using match_here_literal_app [of "[96, 96, 96]" "[Star Space]" rest]
  by (simp add: re_fence_end_def str_fence3 match_here_star accepts_Space)

lemma match_fence_end_miss:
  "\<not> (\<exists>rest. s = 96 # 96 # 96 # rest) \<Longrightarrow> match_here re_fence_end s = None"
proof (rule ccontr)
  assume miss: "\<not> (\<exists>rest. s = 96 # 96 # 96 # rest)" and "match_here re_fence_end s \<noteq> None"
  then obtain m r where "match_here (literal [96, 96, 96] @ [Star Space]) s = Some (m, r)"
    by (auto simp: re_fence_end_def str_fence3)
  from match_here_literal_prefix [OF this] miss show False by auto
qed

lemma match_fence_start_hit:
  "match_here re_fence_start (str ''```json'' @ rest) =
     Some (str ''```json'' @ takeWhile is_space rest, dropWhile is_space rest)"
  using match_here_literal_app [of "str ''```json''" "[Star Space]" rest]
  by (simp add: re_fence_start_def match_here_star accepts_Space)

lemma replace_fence_start_hit:
  "replace_first re_fence_start [] (str ''```json'' @ rest) = dropWhile is_space rest"
proof -
  have "search re_fence_start (str ''```json'' @ rest) =
          Some ([], str ''```json'' @ takeWhile is_space rest, dropWhile is_space rest)"
    using match_fence_start_hit [of rest] by (simp add: str_fence_json)
  then show ?thesis by (simp add: replace_first_def)
qed

lemma replace_fence_end_skip:
  "96 \<notin> set w \<Longrightarrow> replace_first re_fence_end [] (w @ y) = w @ replace_first re_fence_end [] y"
  by (induction w) (auto simp: replace_first_Cons match_fence_end_miss)

lemma replace_fence_end_closing:
  "\<exists>t'. set t' \<subseteq> {10, 96} \<and>
     replace_first re_fence_end [] (y @ [10, 96, 96, 96]) = replace_first re_fence_end [] y @ t'"
proof (induction y)
  case Nil
  have "replace_first re_fence_end [] [10, 96, 96, 96] = [10]"
    by (simp add: replace_first_Cons match_fence_end_miss match_fence_end_hit)
  then show ?case by (simp add: replace_first_Nil)
next
  case (Cons x s)
  show ?case
  proof (cases "\<exists>rest. x # s = 96 # 96 # 96 # rest")
    case True
    then obtain rest where xs: "x # s = 96 # 96 # 96 # rest" by blast
    have l: "replace_first re_fence_end [] ((x # s) @ [10, 96, 96, 96]) =
               dropWhile is_space (rest @ [10, 96, 96, 96])"
      by (simp add: xs replace_first_Cons match_fence_end_hit)
    have r: "replace_first re_fence_end [] (x # s) = dropWhile is_space rest"
      by (simp add: xs replace_first_Cons match_fence_end_hit)
    show ?thesis
    proof (cases "\<forall>c \<in> set rest. is_space c")
      case True
      then have "dropWhile is_space (rest @ [10, 96, 96, 96]) = dropWhile is_space rest @ [96, 96, 96]"
        by (simp add: dropWhile_append is_space_simps)
      with l r show ?thesis by auto
    next
      case False
      then have "dropWhile is_space (rest @ [10, 96, 96, 96]) = dropWhile is_space rest @ [10, 96, 96, 96]"
        by (auto simp: dropWhile_append)
      with l r show ?thesis by auto
    qed
  next
    case False
    then have "\<not> (\<exists>rest. (x # s) @ [10, 96, 96, 96] = 96 # 96 # 96 # rest)"
      by (auto simp: append_eq_Cons_conv Cons_eq_append_conv)
    then have "match_here re_fence_end (x # s @ [10, 96, 96, 96]) = None"
      using match_fence_end_miss [of "x # s @ [10, 96, 96, 96]"] by simp
    then have "replace_first re_fence_end [] ((x # s) @ [10, 96, 96, 96]) =
                 x # replace_first re_fence_end [] (s @ [10, 96, 96, 96])"
      by (simp add: replace_first_Cons)
    moreover have "replace_first re_fence_end [] (x # s) = x # replace_first re_fence_end [] s"
      using False by (simp add: replace_first_Cons match_fence_end_miss)
    ultimately show ?thesis using Cons.IH by auto
  qed
qed


lemma match_here_fence:
  "match_here (literal marker @ [Star Space]) s =
     (if take (length marker) s = marker
      then Some (marker @ takeWhile is_space (drop (length marker) s),
                 dropWhile is_space (drop (length marker) s))
      else None)"
proof (cases "take (length marker) s = marker")
  case True
  then have "s = marker @ drop (length marker) s"
    by (metis append_take_drop_id)
  then have "match_here (literal marker @ [Star Space]) s =
               match_here (literal marker @ [Star Space]) (marker @ drop (length marker) s)"
    by simp
  with True show ?thesis
    by (simp only: match_here_literal_app match_here_star accepts_Space) simp
next
  case False
  have "match_here (literal marker @ [Star Space]) s = None"
  proof (rule ccontr)
    assume "match_here (literal marker @ [Star Space]) s \<noteq> None"
    then obtain m r where "match_here (literal marker @ [Star Space]) s = Some (m, r)"
      by auto
    from match_here_literal_prefix [OF this] False show False by auto
  qed
  with False show ?thesis by simp
qed



lemma span_prefix:
  "123 \<notin> set a \<Longrightarrow> first_to_last_brace (a @ s) = first_to_last_brace s"
  by (simp add: first_to_last_brace_def dropWhile_append)

lemma span_suffix:
  assumes "123 \<notin> set b" "125 \<notin> set b"
  shows "first_to_last_brace (s @ b) = first_to_last_brace s"
proof (cases "123 \<in> set s")
  case False
  then have e1: "dropWhile (\<lambda>x. x \<noteq> 123) (s @ b) = dropWhile (\<lambda>x. x \<noteq> 123) b"
    by (intro dropWhile_append2) auto
  have e2: "dropWhile (\<lambda>x. x \<noteq> 123) b = []"
    using assms(1) unfolding dropWhile_eq_Nil_conv by blast
  have e3: "dropWhile (\<lambda>x. x \<noteq> 123) s = []"
    using False unfolding dropWhile_eq_Nil_conv by blast
  show ?thesis
    by (simp only: first_to_last_brace_def e1 e2 e3 list.case)
next
  case True
  then have app: "dropWhile (\<lambda>x. x \<noteq> 123) (s @ b) = dropWhile (\<lambda>x. x \<noteq> 123) s @ b"
    by (intro dropWhile_append1 [of 123]) auto
  from True have "dropWhile (\<lambda>x. x \<noteq> 123) s \<noteq> []"
    unfolding dropWhile_eq_Nil_conv by blast
  then obtain c t where ct: "dropWhile (\<lambda>x. x \<noteq> 123) s = c # t"
    by (cases "dropWhile (\<lambda>x. x \<noteq> 123) s") auto
  have "dropWhile (\<lambda>x. x \<noteq> 125) (rev b @ rev t) = dropWhile (\<lambda>x. x \<noteq> 125) (rev t)"
    using assms(2) by (intro dropWhile_append2) auto
  then have last: "dropWhile (\<lambda>x. x \<noteq> 125) (rev (t @ b)) = dropWhile (\<lambda>x. x \<noteq> 125) (rev t)"
    by simp
  have mem: "125 \<in> set (t @ b) \<longleftrightarrow> 125 \<in> set t"
    using assms(2) by simp
  have "first_to_last_brace (s @ b) =
          (if 125 \<in> set (t @ b)
           then Some (c # rev (dropWhile (\<lambda>x. x \<noteq> 125) (rev (t @ b)))) else None)"
    by (simp only: first_to_last_brace_def app ct append_Cons list.case)
  also have "\<dots> = (if 125 \<in> set t
           then Some (c # rev (dropWhile (\<lambda>x. x \<noteq> 125) (rev t))) else None)"
    by (simp only: last mem)
  also have "\<dots> = first_to_last_brace s"
    by (simp only: first_to_last_brace_def ct list.case)
  finally show ?thesis .
qed


lemma span_trim: "first_to_last_brace (trim s) = first_to_last_brace s"
proof -
  define s1 where "s1 = dropWhile is_space s"
  have a: "123 \<notin> set (takeWhile is_space s)"
    using is_space_simps by (auto dest: set_takeWhileD)
  have "s = takeWhile is_space s @ s1"
    by (simp add: s1_def)
  then have one: "first_to_last_brace s = first_to_last_brace s1"
    using span_prefix [OF a, of s1] by simp
  define b where "b = rev (takeWhile is_space (rev s1))"
  have b: "123 \<notin> set b" "125 \<notin> set b"
    using is_space_simps by (auto simp: b_def dest: set_takeWhileD)
  have "s1 = rev (takeWhile is_space (rev s1) @ dropWhile is_space (rev s1))"
    by (simp only: takeWhile_dropWhile_id rev_rev_ident)
  then have "s1 = rev (dropWhile is_space (rev s1)) @ rev (takeWhile is_space (rev s1))"
    by (simp only: rev_append)
  then have "s1 = trim s @ b"
    unfolding trim_def b_def s1_def .
  then have "first_to_last_brace s1 = first_to_last_brace (trim s)"
    using span_suffix [OF b, of "trim s"] by simp
  with one show ?thesis by simp
qed

lemma jsonMatch_span:
  "jsonMatch c =
     span_of_cleaned (replace_first re_fence_end [] (replace_first re_fence_start [] c))"
  by (simp add: jsonMatch_def cleanedResponse_def str_match_braces span_trim replace_newline
      span_of_cleaned_def)

lemma span_of_cleaned_prefix:
  "123 \<notin> set a \<Longrightarrow> span_of_cleaned (a @ s) = span_of_cleaned s"
  by (simp add: span_of_cleaned_def span_prefix)

lemma span_of_cleaned_suffix:
  "123 \<notin> set b \<Longrightarrow> 125 \<notin> set b \<Longrightarrow> span_of_cleaned (s @ b) = span_of_cleaned s"
  by (simp add: span_of_cleaned_def span_suffix)

lemma jsonMatch_in_code_fence:
  assumes "search re_fence_start j = None"
  shows "jsonMatch (in_code_fence j) = jsonMatch j"
proof -
  let ?R2 = "replace_first re_fence_end []"
  let ?t = "[10, 96, 96, 96] :: jsstring"
  have r1: "replace_first re_fence_start [] (in_code_fence j) = dropWhile is_space (j @ ?t)"
    using replace_fence_start_hit [of "[10] @ j @ ?t"]
    by (simp add: in_code_fence_def str_fence3 is_space_simps)
  have r1': "replace_first re_fence_start [] j = j"
    using assms by (simp add: replace_first_def)
  define w where "w = takeWhile is_space j"
  define j' where "j' = dropWhile is_space j"
  have j: "j = w @ j'" by (simp add: w_def j'_def)
  have w: "96 \<notin> set w" "123 \<notin> set w"
    using is_space_simps by (auto simp: w_def dest: set_takeWhileD)
  have unf: "span_of_cleaned (?R2 j) = span_of_cleaned (?R2 j')"
    using replace_fence_end_skip [OF w(1), of j'] span_of_cleaned_prefix [OF w(2)]
    by (simp add: j [symmetric])
  have fen: "span_of_cleaned (?R2 (dropWhile is_space (j @ ?t))) = span_of_cleaned (?R2 j')"
  proof (cases "j' = []")
    case True
    then have "\<forall>c \<in> set j. is_space c"
      by (simp add: j'_def dropWhile_eq_Nil_conv)
    then have "dropWhile is_space (j @ ?t) = [96, 96, 96]"
      by (simp add: dropWhile_append is_space_simps)
    then have "?R2 (dropWhile is_space (j @ ?t)) = []"
      by (simp add: replace_first_Cons match_fence_end_hit)
    then show ?thesis
      by (simp add: True replace_first_Nil)
  next
    case False
    then have "\<not> (\<forall>c \<in> set j. is_space c)"
      by (simp add: j'_def dropWhile_eq_Nil_conv)
    then have d: "dropWhile is_space (j @ ?t) = j' @ ?t"
      by (auto simp: dropWhile_append j'_def)
    obtain t' where t': "set t' \<subseteq> {10, 96}" "?R2 (j' @ ?t) = ?R2 j' @ t'"
      using replace_fence_end_closing [of j'] by blast
    from t'(1) have "123 \<notin> set t'" "125 \<notin> set t'" by auto
    then show ?thesis
      by (simp add: d t'(2) span_of_cleaned_suffix)
  qed
  show ?thesis
    by (simp add: jsonMatch_span r1 r1' unf fen)
qed

section \<open>Properties of validateImage and generateImage\<close>

text \<open>
  The steps of \<open>validateImage\<close> on a valid input, one lemma for each, and the branches of
  the \<^verbatim>\<open>try\<close> block of \<open>generateImage\<close>.
\<close>

lemma jsonMatch_Nil: "jsonMatch [] = None"
  by (simp add: jsonMatch_span replace_first_Nil span_of_cleaned_def first_to_last_brace_def)

lemma validateImage_valid:
  assumes "imageBytes options \<noteq> None \<or> present (base64Image options)"
    and "present (assertionPrompt options)"
  shows "validateImage rt aws this options =
           ([validation_command rt options (or_default [] (assertionPrompt options))],
            and_then
              (send_converse aws (region this)
                 (validation_command rt options (or_default [] (assertionPrompt options))))
              (read_reply rt (or_default (Finite 7) (confidenceThreshold options))))"
  using assms by (auto simp: validateImage_def Let_def)

lemma read_reply_text:
  assumes "first_text response = Inr (Some c)"
  shows "read_reply rt t response =
           (if c = [] then Inl no_output
            else case jsonMatch c of
                   None \<Rightarrow> Inl no_json_block
                 | Some jm \<Rightarrow> and_then (JSON_parse rt (trim jm)) (verdict_of rt t))"
  using assms
  by (simp add: read_reply_def and_then_def present_def or_default_def no_output_def
      no_json_block_def split: option.splits)

lemma verdict_of_object:
  "verdict_of rt t (JObj r kvs) =
     and_then (js_ge rt (own_property kvs (str ''score'')) (JNum t)) (\<lambda>reached.
       Inr \<lparr>assertionsMet =
              (if reached then own_property kvs (str ''assertionsMet'') else JBool False),
            score = own_property kvs (str ''score''),
            tone = own_property kvs (str ''tone''),
            explanation = own_property kvs (str ''explanation'')\<rparr>)"
  by (simp add: verdict_of_def and_then_def split: sum.splits)

lemma js_ge_numbers: "js_ge rt (JNum a) (JNum b) = Inr (num_lt a b = Some False)"
  by (simp add: js_ge_def IsLessThan_def and_then_def)

lemma js_ge_primitive: "is_primitive a \<Longrightarrow> \<exists>reached. js_ge rt a (JNum t) = Inr reached"
  by (cases a) (auto simp: js_ge_def IsLessThan_def and_then_def)

lemma validateImage_parsed:
  assumes "imageBytes options \<noteq> None \<or> present (base64Image options)"
    and "present (assertionPrompt options)"
    and "send_converse aws (region this)
           (validation_command rt options (or_default [] (assertionPrompt options))) = Inr response"
    and "first_text response = Inr (Some c)"
    and "jsonMatch c = Some jm"
    and "JSON_parse rt (trim jm) = Inr (JObj r kvs)"
  shows "snd (validateImage rt aws this options) =
           verdict_of rt (or_default (Finite 7) (confidenceThreshold options)) (JObj r kvs)"
proof -
  from assms(5) have "c \<noteq> []"
    using jsonMatch_Nil by auto
  then show ?thesis
    by (simp add: validateImage_valid [OF assms(1,2)] assms(3) read_reply_text [OF assms(4)]
        assms(5,6) and_then_def)
qed











lemma replace_fence_start_skip:
  "96 \<notin> set w \<Longrightarrow> replace_first re_fence_start [] (w @ y) = w @ replace_first re_fence_start [] y"
proof (induction w)
  case Nil
  then show ?case by simp
next
  case (Cons x w)
  then have "x \<noteq> 96" by auto
  then have "match_here re_fence_start (x # w @ y) = None"
    by (simp add: re_fence_start_def match_here_fence str_fence_json del: match_here.simps)
  with Cons show ?case
    by (simp add: replace_first_Cons)
qed


lemma str_keys_distinct:
  "str ''assertionsMet'' \<noteq> str ''score''" "str ''assertionsMet'' \<noteq> str ''tone''"
  "str ''score'' \<noteq> str ''tone''" "str ''score'' \<noteq> str ''assertionsMet''"
  "str ''tone'' \<noteq> str ''assertionsMet''" "str ''tone'' \<noteq> str ''score''"
  by (simp_all add: str_def)

lemma strict_eq_True: "strict_eq a (JBool True) \<longleftrightarrow> a = JBool True"
  by (cases a) auto

lemma every_True_iff: "every f xs = Inr True \<longleftrightarrow> (\<forall>x \<in> set xs. f x = Inr True)"
  by (induction xs) (auto simp: and_then_def split: sum.splits)

lemma every_returns:
  "(\<forall>x \<in> set xs. \<exists>holds. f x = Inr holds) \<Longrightarrow> \<exists>holds. every f xs = Inr holds"
  by (induction xs) (auto simp: and_then_def split: sum.splits)

lemma passes_iff:
  "passes (toSatisfyImageAssertions rt utils V E) \<longleftrightarrow> every (entry_matches rt V) E = Inr True"
  by (auto simp: passes_def toSatisfyImageAssertions_def and_then_def split: sum.splits)

lemma matcher_returns_iff:
  "(\<exists>result. toSatisfyImageAssertions rt utils V E = Inr result) \<longleftrightarrow>
   (\<exists>holds. every (entry_matches rt V) E = Inr holds)"
  by (auto simp: toSatisfyImageAssertions_def and_then_def split: sum.splits)

lemma generateImage_wraps:
  "generateImage rt aws this options =
     (case generateImage_try rt aws (generation_client this options)
             (generation_modelId options) (generation_command rt options) of
        Inr generated \<Rightarrow> Inr generated
      | Inl error \<Rightarrow> Inl (generation_failed (message_of error)))"
  by (simp add: generateImage_def generation_failed_def split: sum.splits)

lemma try_transport:
  "send_invoke aws client command = Inl e \<Longrightarrow>
     generateImage_try rt aws client m command = Inl e"
  by (simp add: generateImage_try_def and_then_def)

lemma try_no_body:
  "send_invoke aws client command = Inr response \<Longrightarrow> body response = None \<Longrightarrow>
     generateImage_try rt aws client m command =
       Inl (Exception Error (str ''No response body received from model''))"
  by (simp add: generateImage_try_def and_then_def)

lemma try_parse_failure:
  "send_invoke aws client command = Inr response \<Longrightarrow> body response = Some octets \<Longrightarrow>
   JSON_parse rt (TextDecoder_decode rt octets) = Inl e \<Longrightarrow>
     generateImage_try rt aws client m command = Inl e"
  by (simp add: generateImage_try_def and_then_def)

lemma try_parsed:
  "send_invoke aws client command = Inr response \<Longrightarrow> body response = Some octets \<Longrightarrow>
   JSON_parse rt (TextDecoder_decode rt octets) = Inr (JObj r kvs) \<Longrightarrow>
     generateImage_try rt aws client m command =
       (let images = own_property kvs (str ''images'') in
        and_then (if \<not> truthy images then Inr True
                  else and_then (get_length images)
                         (\<lambda>n. Inr (strict_eq n (JNum (Finite 0))))) (\<lambda>no_images.
          if no_images then Inl (Exception Error (str ''No images returned from model''))
          else
            and_then (get_index0 images) (\<lambda>base64Image'.
              if \<not> truthy base64Image'
              then Inl (Exception Error (str ''No image data found in response''))
              else
                and_then (Buffer_from rt base64Image') (\<lambda>imageBytes'.
                  Inr \<lparr>res_imageBytes = imageBytes',
                       res_base64Image = base64Image',
                       res_modelId = m\<rparr>))))"
  by (simp add: generateImage_try_def and_then_def Let_def)

lemma search_fence_start_found:
  "search re_fence_start (a @ str ''```json'' @ b) \<noteq> None"
proof (induction a)
  case Nil
  have "search re_fence_start (str ''```json'' @ b) =
          Some ([], str ''```json'' @ takeWhile is_space b, dropWhile is_space b)"
    using match_fence_start_hit [of b] by (simp add: str_fence_json)
  then show ?case by simp
next
  case (Cons x a)
  then show ?case by (auto split: option.splits)
qed

lemma match_here_self: "match_here p s = Some (m, r) \<Longrightarrow> match_here p (m @ r) = Some (m, r)"
  using match_here_sound by fastforce

lemma search_match_self:
  "search p s = Some (pre, m, r) \<Longrightarrow> match_here p (m @ r) = Some (m, r)"
  by (induction s arbitrary: pre) (auto split: option.splits intro: match_here_self)

lemma search_fence_start_contains:
  assumes "search re_fence_start s = Some (pre, m, r)"
  shows "\<exists>a b. s = a @ str ''```json'' @ b"
proof -
  from assms have s: "s = pre @ m @ r"
    by (rule search_sound)
  from assms have "match_here re_fence_start (m @ r) = Some (m, r)"
    by (rule search_match_self)
  then obtain rest where "m @ r = str ''```json'' @ rest"
    using match_here_literal_prefix [of "str ''```json''" "[Star Space]" "m @ r" m r]
    by (auto simp: re_fence_start_def)
  with s show ?thesis by (metis append_assoc)
qed

lemma no_fence_start_iff:
  "str_match re_fence_start j = None \<longleftrightarrow> \<not> (\<exists>a b. j = a @ str ''```json'' @ b)"
proof
  assume "str_match re_fence_start j = None"
  then have "search re_fence_start j = None"
    by (simp add: str_match_def split: option.splits prod.splits)
  then show "\<not> (\<exists>a b. j = a @ str ''```json'' @ b)"
    using search_fence_start_found by blast
next
  assume "\<not> (\<exists>a b. j = a @ str ''```json'' @ b)"
  then have "search re_fence_start j = None"
    using search_fence_start_contains [of j]
    by (cases "search re_fence_start j") (simp, metis prod_cases3)
  then show "str_match re_fence_start j = None"
    by (simp add: str_match_def)
qed


text \<open>
  Where the marker \<^verbatim>\<open>```json\<close> does not occur in a text, the unanchored replacements can
  only remove the fence: the fenced reply and the bare one give the same result.
\<close>

lemma fenced_reply_same_result_without_marker:
  assumes "j \<noteq> []" and "\<not> (\<exists>a b. j = a @ str ''```json'' @ b)"
    and "send_converse aws1 (region this)
           (validation_command rt options (or_default [] (assertionPrompt options))) = Inr fenced"
    and "first_text fenced = Inr (Some (in_code_fence j))"
    and "send_converse aws2 (region this)
           (validation_command rt options (or_default [] (assertionPrompt options))) = Inr plain"
    and "first_text plain = Inr (Some j)"
  shows "validateImage rt aws1 this options = validateImage rt aws2 this options"
proof -
  from assms(2) have "search re_fence_start j = None"
    using no_fence_start_iff [of j] by (simp add: str_match_def split: option.splits prod.splits)
  then have same: "jsonMatch (in_code_fence j) = jsonMatch j"
    by (rule jsonMatch_in_code_fence)
  have ne: "in_code_fence j \<noteq> []"
    by (simp add: in_code_fence_def)
  have "read_reply rt t fenced = read_reply rt t plain" for t
    by (simp add: read_reply_text [OF assms(4)] read_reply_text [OF assms(6)] same ne assms(1))
  then show ?thesis
    by (simp add: validateImage_def Let_def assms(3,5) and_then_def)
qed

section \<open>The test doubles evaluated\<close>

text \<open>The sample texts run through the extraction and the sample parser.\<close>

lemma sample_valid:
  "imageBytes (sample_input t) \<noteq> None \<or> present (base64Image (sample_input t))"
  "present (assertionPrompt (sample_input t))"
  by (simp_all add: sample_input_def present_def str_def)

lemma mock_replies:
  "send_converse (mock_bedrock a b) client command = b"
  "send_invoke (mock_bedrock a b) client command' = a"
  by (simp_all add: mock_bedrock_def)

lemma first_text_text_reply: "first_text (text_reply c) = Inr (Some c)"
  by (simp add: first_text_def text_reply_def)

lemmas extraction_defs =
  jsonMatch_def cleanedResponse_def str_def re_braces_def re_fence_start_def re_fence_end_def
  re_newline_def replace_first_def replace_all_def str_match_def trim_def is_space_def
  literal_def in_code_fence_def

lemmas sample_texts =
  cat_verdict_text_def sepia_verdict_text_def quoting_verdict_text_def
  quoting_unfenced_span_def quoting_fenced_span_def no_images_key_text_def
  images_empty_text_def images_null_text_def images_blank_text_def
  unconvertible_score_text_def

lemma sample_spans:
  "jsonMatch cat_verdict_text = Some cat_verdict_text"
  "jsonMatch sepia_verdict_text = Some sepia_verdict_text"
  "jsonMatch quoting_verdict_text = Some quoting_unfenced_span"
  "jsonMatch (in_code_fence quoting_verdict_text) = Some quoting_fenced_span"
  "jsonMatch unconvertible_score_text = Some unconvertible_score_text"
  by (simp_all add: extraction_defs sample_texts)

lemma sample_parses:
  "JSON_parse sample_runtime (trim cat_verdict_text) = Inr (JObj 1 cat_verdict_fields)"
  "JSON_parse sample_runtime (trim sepia_verdict_text) = Inr (JObj 2 sepia_verdict_fields)"
  "JSON_parse sample_runtime (trim quoting_unfenced_span) = Inr (JObj 3 (quoting_fields []))"
  "JSON_parse sample_runtime (trim quoting_fenced_span) = Inr (JObj 11 (quoting_fields (str ''json'')))"
  "JSON_parse sample_runtime (trim unconvertible_score_text)
     = Inr (JObj 12 unconvertible_score_fields)"
  by (simp_all add: sample_runtime_def sample_parse_def sample_parse_table_def trim_def
      is_space_def sample_texts str_def)


lemma sample_bodies:
  "JSON_parse sample_runtime (TextDecoder_decode sample_runtime (str ''oops''))
     = Inl (Exception SyntaxError (str ''Unexpected token''))"
  "JSON_parse sample_runtime (TextDecoder_decode sample_runtime no_images_key_text)
     = Inr (JObj 4 [])"
  "JSON_parse sample_runtime (TextDecoder_decode sample_runtime images_empty_text)
     = Inr (JObj 5 [(str ''images'', JArr 6 [])])"
  "JSON_parse sample_runtime (TextDecoder_decode sample_runtime images_null_text)
     = Inr (JObj 7 [(str ''images'', JArr 8 [JNull])])"
  "JSON_parse sample_runtime (TextDecoder_decode sample_runtime images_blank_text)
     = Inr (JObj 9 [(str ''images'', JArr 10 [JStr []])])"
  by (simp_all add: sample_runtime_def sample_parse_def sample_parse_table_def sample_texts
      str_def)

lemma sample_verdicts:
  "snd (validateImage sample_runtime
          (mock_bedrock (Inl throttled) (Inr (text_reply cat_verdict_text)))
          (new_ImageAssertions None) (sample_input None))
     = Inr \<lparr>assertionsMet = JBool True, score = JNum (Finite 9),
            tone = JStr (str ''photo-realistic''),
            explanation = JStr (str ''An orange cat.'')\<rparr>"
  "snd (validateImage sample_runtime
          (mock_bedrock (Inl throttled) (Inr (text_reply quoting_verdict_text)))
          (new_ImageAssertions None) (sample_input None))
     = Inr \<lparr>assertionsMet = JBool True, score = JNum (Finite 9),
            tone = JStr (str ''dreamy''), explanation = JStr []\<rparr>"
  "snd (validateImage sample_runtime
          (mock_bedrock (Inl throttled) (Inr (text_reply (in_code_fence quoting_verdict_text))))
          (new_ImageAssertions None) (sample_input None))
     = Inr \<lparr>assertionsMet = JBool True, score = JNum (Finite 9),
            tone = JStr (str ''dreamy''), explanation = JStr (str ''json'')\<rparr>"
proof -
  have keys: "own_property cat_verdict_fields (str ''score'') = JNum (Finite 9)"
    "own_property cat_verdict_fields (str ''assertionsMet'') = JBool True"
    "own_property cat_verdict_fields (str ''tone'') = JStr (str ''photo-realistic'')"
    "own_property cat_verdict_fields (str ''explanation'') = JStr (str ''An orange cat.'')"
    "own_property (quoting_fields e) (str ''score'') = JNum (Finite 9)"
    "own_property (quoting_fields e) (str ''assertionsMet'') = JBool True"
    "own_property (quoting_fields e) (str ''tone'') = JStr (str ''dreamy'')"
    "own_property (quoting_fields e) (str ''explanation'') = JStr e" for e
    by (simp_all add: own_property_def cat_verdict_fields_def quoting_fields_def str_def)
  have seven: "or_default (Finite 7) (confidenceThreshold (sample_input None)) = Finite 7"
    by (simp add: or_default_def sample_input_def)
  show "snd (validateImage sample_runtime
          (mock_bedrock (Inl throttled) (Inr (text_reply cat_verdict_text)))
          (new_ImageAssertions None) (sample_input None))
     = Inr \<lparr>assertionsMet = JBool True, score = JNum (Finite 9),
            tone = JStr (str ''photo-realistic''),
            explanation = JStr (str ''An orange cat.'')\<rparr>"
    using validateImage_parsed [OF sample_valid mock_replies(1) first_text_text_reply
        sample_spans(1) sample_parses(1)]
    by (simp add: verdict_of_object keys seven js_ge_numbers and_then_def)
  show "snd (validateImage sample_runtime
          (mock_bedrock (Inl throttled) (Inr (text_reply quoting_verdict_text)))
          (new_ImageAssertions None) (sample_input None))
     = Inr \<lparr>assertionsMet = JBool True, score = JNum (Finite 9),
            tone = JStr (str ''dreamy''), explanation = JStr []\<rparr>"
    using validateImage_parsed [OF sample_valid mock_replies(1) first_text_text_reply
        sample_spans(3) sample_parses(3)]
    by (simp add: verdict_of_object keys seven js_ge_numbers and_then_def)
  show "snd (validateImage sample_runtime
          (mock_bedrock (Inl throttled) (Inr (text_reply (in_code_fence quoting_verdict_text))))
          (new_ImageAssertions None) (sample_input None))
     = Inr \<lparr>assertionsMet = JBool True, score = JNum (Finite 9),
            tone = JStr (str ''dreamy''), explanation = JStr (str ''json'')\<rparr>"
    using validateImage_parsed [OF sample_valid mock_replies(1) first_text_text_reply
        sample_spans(4) sample_parses(4)]
    by (simp add: verdict_of_object keys seven js_ge_numbers and_then_def)
qed


section \<open>The claims\<close>

subsection \<open>C1\<close>

text \<open>
  Claim C1. Whenever the model's reply yields a JSON object whose \<^verbatim>\<open>score\<close> is a number
  \<open>s\<close> and whose \<^verbatim>\<open>assertionsMet\<close> is a boolean \<open>b\<close>, \<open>validateImage\<close> returns a
  verdict, and the verdict's \<^verbatim>\<open>assertionsMet\<close> is the boolean \<open>b\<close> and \<open>s >= threshold\<close>
  (the comparison of JavaScript: \<open>s < threshold\<close> is false, which for finite numbers is
  \<open>\<ge>\<close>). In particular it is \<^verbatim>\<open>false\<close> when the threshold is greater than the score,
  whatever \<open>b\<close> is. The threshold is \<^verbatim>\<open>confidenceThreshold\<close>, 7 by default.
\<close>

theorem threshold_gate:
  assumes "imageBytes options \<noteq> None \<or> present (base64Image options)"
    and "present (assertionPrompt options)"
    and "send_converse aws (region this)
           (validation_command rt options (or_default [] (assertionPrompt options))) = Inr response"
    and "first_text response = Inr (Some c)"
    and "jsonMatch c = Some jm"
    and "JSON_parse rt (trim jm) = Inr (JObj r kvs)"
    and "own_property kvs (str ''score'') = JNum s"
    and "own_property kvs (str ''assertionsMet'') = JBool b"
  shows "\<exists>v. snd (validateImage rt aws this options) = Inr v
           \<and> assertionsMet v =
               JBool (b \<and> num_lt s (or_default (Finite 7) (confidenceThreshold options)) = Some False)
           \<and> (num_lt s (or_default (Finite 7) (confidenceThreshold options)) = Some True
                \<longrightarrow> assertionsMet v = JBool False)"
  using validateImage_parsed [OF assms(1-6)] assms(7,8)
  by (auto simp: verdict_of_object js_ge_numbers and_then_def)

theorem threshold_gate_witness:
  "(\<exists>v. snd (validateImage sample_runtime
               (mock_bedrock (Inl throttled) (Inr (text_reply cat_verdict_text)))
               (new_ImageAssertions None) (sample_input None)) = Inr v
        \<and> assertionsMet v = JBool True)
   \<and> (\<exists>v. snd (validateImage sample_runtime
               (mock_bedrock (Inl throttled) (Inr (text_reply cat_verdict_text)))
               (new_ImageAssertions None) (sample_input (Some (Finite 10)))) = Inr v
        \<and> assertionsMet v = JBool False)"
proof -
  have fields: "own_property cat_verdict_fields (str ''score'') = JNum (Finite 9)"
    "own_property cat_verdict_fields (str ''assertionsMet'') = JBool True"
    by (simp_all add: own_property_def cat_verdict_fields_def str_def)
  show ?thesis
    using
      threshold_gate [where options = "sample_input None" and rt = sample_runtime
        and aws = "mock_bedrock (Inl throttled) (Inr (text_reply cat_verdict_text))"
        and this = "new_ImageAssertions None",
        OF sample_valid mock_replies(1) first_text_text_reply sample_spans(1) sample_parses(1)
          fields]
      threshold_gate [where options = "sample_input (Some (Finite 10))" and rt = sample_runtime
        and aws = "mock_bedrock (Inl throttled) (Inr (text_reply cat_verdict_text))"
        and this = "new_ImageAssertions None",
        OF sample_valid mock_replies(1) first_text_text_reply sample_spans(1) sample_parses(1)
          fields]
    by (simp add: or_default_def sample_input_def)
qed

subsection \<open>C2\<close>

text \<open>
  Claim C2. The matcher returns a passing result exactly when every entry of the
  expectation holds of the verdict: an \<^verbatim>\<open>assertionsMet\<close> entry by strict equality, a
  \<^verbatim>\<open>score\<close> entry as a floor (the verdict's score \<^verbatim>\<open>>=\<close> the expected one), a
  \<^verbatim>\<open>tone\<close> entry by strict equality and every other entry by strict equality with what
  \<^verbatim>\<open>received[key]\<close> reads; nothing is checked for a field the expectation does not have.
  In particular the expectation \<^verbatim>\<open>{assertionsMet: true, score: s}\<close> passes exactly when
  the verdict's \<^verbatim>\<open>assertionsMet\<close> is \<^verbatim>\<open>true\<close> and its score is \<^verbatim>\<open>>= s\<close>. The matcher
  returns a result (passing or not) whenever no comparison of scores throws, which is so
  whenever the scores compared are primitive.
\<close>

theorem matcher_checks_present_fields:
  "(passes (toSatisfyImageAssertions rt utils V E) \<longleftrightarrow>
      (\<forall>v. (str ''assertionsMet'', v) \<in> set E \<longrightarrow> strict_eq (assertionsMet V) v)
    \<and> (\<forall>v. (str ''score'', v) \<in> set E \<longrightarrow> js_ge rt (score V) v = Inr True)
    \<and> (\<forall>v. (str ''tone'', v) \<in> set E \<longrightarrow> strict_eq (tone V) v)
    \<and> (\<forall>k v. (k, v) \<in> set E \<longrightarrow>
           k \<noteq> str ''assertionsMet'' \<and> k \<noteq> str ''score'' \<and> k \<noteq> str ''tone'' \<longrightarrow>
           (\<exists>own. received_get V k = Some own \<and> strict_eq own v)))
   \<and> (passes (toSatisfyImageAssertions rt utils V
                 [(str ''assertionsMet'', JBool True), (str ''score'', JNum s)]) \<longleftrightarrow>
        assertionsMet V = JBool True \<and> js_ge rt (score V) (JNum s) = Inr True)
   \<and> (\<forall>n. score V = JNum n \<longrightarrow>
         (passes (toSatisfyImageAssertions rt utils V
                   [(str ''assertionsMet'', JBool True), (str ''score'', JNum s)]) \<longleftrightarrow>
          assertionsMet V = JBool True \<and> num_lt n s = Some False))
   \<and> ((\<forall>v. (str ''score'', v) \<in> set E \<longrightarrow> (\<exists>holds. js_ge rt (score V) v = Inr holds))
        \<longrightarrow> (\<exists>result. toSatisfyImageAssertions rt utils V E = Inr result))"
proof -
  have one: "every (entry_matches rt V) E = Inr True \<longleftrightarrow>
      (\<forall>v. (str ''assertionsMet'', v) \<in> set E \<longrightarrow> strict_eq (assertionsMet V) v)
    \<and> (\<forall>v. (str ''score'', v) \<in> set E \<longrightarrow> js_ge rt (score V) v = Inr True)
    \<and> (\<forall>v. (str ''tone'', v) \<in> set E \<longrightarrow> strict_eq (tone V) v)
    \<and> (\<forall>k v. (k, v) \<in> set E \<longrightarrow>
           k \<noteq> str ''assertionsMet'' \<and> k \<noteq> str ''score'' \<and> k \<noteq> str ''tone'' \<longrightarrow>
           (\<exists>own. received_get V k = Some own \<and> strict_eq own v))"
    unfolding every_True_iff using str_keys_distinct
    by (fastforce split: option.splits)
  have two: "every (entry_matches rt V)
               [(str ''assertionsMet'', JBool True), (str ''score'', JNum s)] = Inr True \<longleftrightarrow>
             assertionsMet V = JBool True \<and> js_ge rt (score V) (JNum s) = Inr True"
    unfolding every_True_iff using str_keys_distinct by (simp add: strict_eq_True)
  have three: "\<exists>result. toSatisfyImageAssertions rt utils V E = Inr result"
    if "\<forall>v. (str ''score'', v) \<in> set E \<longrightarrow> (\<exists>holds. js_ge rt (score V) v = Inr holds)"
  proof -
    from that have "\<forall>x \<in> set E. \<exists>holds. entry_matches rt V x = Inr holds"
      by auto
    then show ?thesis
      unfolding matcher_returns_iff by (rule every_returns)
  qed
  show ?thesis
    unfolding passes_iff using one two three by (auto simp: js_ge_numbers)
qed

theorem matcher_checks_present_fields_witness:
  "passes (toSatisfyImageAssertions sample_runtime sample_utils sample_verdict
             [(str ''assertionsMet'', JBool True), (str ''score'', JNum (Finite 8))])
   \<and> \<not> passes (toSatisfyImageAssertions sample_runtime sample_utils sample_verdict
             [(str ''assertionsMet'', JBool True), (str ''score'', JNum (Finite 10))])
   \<and> \<not> passes (toSatisfyImageAssertions sample_runtime sample_utils sample_verdict
             [(str ''tone'', JStr DREAMY)])
   \<and> passes (toSatisfyImageAssertions sample_runtime sample_utils sample_verdict
             [(str ''explanation'', JStr (str ''An orange cat.''))])
   \<and> \<not> passes (toSatisfyImageAssertions sample_runtime sample_utils sample_verdict
             [(str ''constructor'', JUndefined)])"
proof -
  have floor: "passes (toSatisfyImageAssertions sample_runtime sample_utils sample_verdict
                 [(str ''assertionsMet'', JBool True), (str ''score'', JNum s)]) \<longleftrightarrow>
               assertionsMet sample_verdict = JBool True
               \<and> js_ge sample_runtime (score sample_verdict) (JNum s) = Inr True" for s
    using matcher_checks_present_fields [of sample_runtime sample_utils sample_verdict "[]" s]
    by blast
  have tone: "\<not> passes (toSatisfyImageAssertions sample_runtime sample_utils sample_verdict
                 [(str ''tone'', JStr DREAMY)])"
    using matcher_checks_present_fields [of sample_runtime sample_utils sample_verdict
        "[(str ''tone'', JStr DREAMY)]" s]
    by (simp add: sample_verdict_def DREAMY_def PHOTO_REALISTIC_def str_def)
  have other: "passes (toSatisfyImageAssertions sample_runtime sample_utils sample_verdict
                 [(str ''explanation'', JStr (str ''An orange cat.''))])"
    using matcher_checks_present_fields [of sample_runtime sample_utils sample_verdict
        "[(str ''explanation'', JStr (str ''An orange cat.''))]" s]
    by (simp add: sample_verdict_def received_get_def str_def)
  have inherited: "\<not> passes (toSatisfyImageAssertions sample_runtime sample_utils sample_verdict
                 [(str ''constructor'', JUndefined)])"
    using matcher_checks_present_fields [of sample_runtime sample_utils sample_verdict
        "[(str ''constructor'', JUndefined)]" s]
    by (simp add: sample_verdict_def received_get_def Object_prototype_names_def str_def)
  show ?thesis
    unfolding floor using tone other inherited
    by (simp add: sample_verdict_def js_ge_numbers)
qed

subsection \<open>C3\<close>

text \<open>
  Claim C3. When neither \<^verbatim>\<open>imageBytes\<close> nor \<^verbatim>\<open>base64Image\<close> is given, and when the
  assertion text is absent or empty, \<open>validateImage\<close> throws the error of a precondition
  check and has sent no command to the service. The source has one class of error; the two
  precondition errors are told from the two errors of the reply's reading by their messages.
\<close>

theorem invalid_input_fails_before_any_call:
  "(imageBytes options = None \<and> base64Image options = None \<longrightarrow>
      validateImage rt aws this options = ([], Inl missing_image))
   \<and> (assertionPrompt options = None \<or> assertionPrompt options = Some [] \<longrightarrow>
        validateImage rt aws this options =
          ([], Inl (if imageBytes options = None \<and> \<not> present (base64Image options)
                    then missing_image else missing_assertion)))
   \<and> missing_image \<noteq> no_output \<and> missing_image \<noteq> no_json_block
   \<and> missing_assertion \<noteq> no_output \<and> missing_assertion \<noteq> no_json_block"
proof -
  have "missing_image \<noteq> no_output" "missing_image \<noteq> no_json_block"
    "missing_assertion \<noteq> no_output" "missing_assertion \<noteq> no_json_block"
    by (simp_all add: missing_image_def missing_assertion_def no_output_def no_json_block_def
        str_def)
  then show ?thesis
    by (auto simp: validateImage_def present_def missing_image_def missing_assertion_def)
qed

theorem invalid_input_fails_before_any_call_witness:
  "validateImage sample_runtime (mock_bedrock (Inl throttled) (Inl throttled))
     (new_ImageAssertions None) ((sample_input None)\<lparr>imageBytes := None\<rparr>)
     = ([], Inl missing_image)
   \<and> validateImage sample_runtime (mock_bedrock (Inl throttled) (Inl throttled))
     (new_ImageAssertions None) ((sample_input None)\<lparr>assertionPrompt := None\<rparr>)
     = ([], Inl missing_assertion)
   \<and> validateImage sample_runtime (mock_bedrock (Inl throttled) (Inl throttled))
     (new_ImageAssertions None) ((sample_input None)\<lparr>assertionPrompt := Some []\<rparr>)
     = ([], Inl missing_assertion)"
  using
    invalid_input_fails_before_any_call [of "(sample_input None)\<lparr>imageBytes := None\<rparr>"
      sample_runtime "mock_bedrock (Inl throttled) (Inl throttled)" "new_ImageAssertions None"]
    invalid_input_fails_before_any_call [of "(sample_input None)\<lparr>assertionPrompt := None\<rparr>"
      sample_runtime "mock_bedrock (Inl throttled) (Inl throttled)" "new_ImageAssertions None"]
    invalid_input_fails_before_any_call [of "(sample_input None)\<lparr>assertionPrompt := Some []\<rparr>"
      sample_runtime "mock_bedrock (Inl throttled) (Inl throttled)" "new_ImageAssertions None"]
  by (simp add: sample_input_def present_def)

subsection \<open>C4\<close>

text \<open>
  Claim C4. \<open>generateImage\<close> fails with the error of its \<^verbatim>\<open>catch\<close> clause, whose message
  is \<^verbatim>\<open>Image generation failed: \<close> followed by the cause: when the service throws (the
  cause is the message thrown), when the response has no body, when the body does not parse
  (the cause is the parser's message), when the parsed object has no \<^verbatim>\<open>images\<close> or an
  empty list (the cause says that no images were returned), and when the first image is
  \<^verbatim>\<open>null\<close> or the empty string. Every failure of \<open>generateImage\<close> is of this one form.
\<close>

theorem generation_failures_are_wrapped:
  "(\<forall>e. send_invoke aws (generation_client this options) (generation_command rt options) = Inl e
       \<longrightarrow> generateImage rt aws this options = Inl (generation_failed (message_of e)))
   \<and> (\<forall>response.
        send_invoke aws (generation_client this options) (generation_command rt options)
          = Inr response \<longrightarrow>
        (body response = None \<longrightarrow>
           generateImage rt aws this options =
             Inl (generation_failed (str ''No response body received from model'')))
        \<and> (\<forall>octets. body response = Some octets \<longrightarrow>
             (\<forall>e. JSON_parse rt (TextDecoder_decode rt octets) = Inl e \<longrightarrow>
                generateImage rt aws this options = Inl (generation_failed (message_of e)))
             \<and> (\<forall>r kvs. JSON_parse rt (TextDecoder_decode rt octets) = Inr (JObj r kvs) \<longrightarrow>
                  (own_property kvs (str ''images'') = JUndefined \<longrightarrow>
                     generateImage rt aws this options =
                       Inl (generation_failed (str ''No images returned from model'')))
                  \<and> (\<forall>r'. own_property kvs (str ''images'') = JArr r' [] \<longrightarrow>
                       generateImage rt aws this options =
                         Inl (generation_failed (str ''No images returned from model'')))
                  \<and> (\<forall>r' x xs. own_property kvs (str ''images'') = JArr r' (x # xs) \<longrightarrow>
                       x = JNull \<or> x = JStr [] \<longrightarrow>
                       generateImage rt aws this options =
                         Inl (generation_failed (str ''No image data found in response''))))))
   \<and> (\<forall>e. generateImage rt aws this options = Inl e \<longrightarrow> (\<exists>m. e = generation_failed m))"
proof (intro conjI allI impI)
  fix e
  assume "send_invoke aws (generation_client this options) (generation_command rt options) = Inl e"
  then show "generateImage rt aws this options = Inl (generation_failed (message_of e))"
    by (simp add: generateImage_wraps try_transport)
next
  fix response
  assume "send_invoke aws (generation_client this options) (generation_command rt options)
            = Inr response" "body response = None"
  then show "generateImage rt aws this options =
               Inl (generation_failed (str ''No response body received from model''))"
    by (simp add: generateImage_wraps try_no_body)
next
  fix response octets e
  assume "send_invoke aws (generation_client this options) (generation_command rt options)
            = Inr response" "body response = Some octets"
    "JSON_parse rt (TextDecoder_decode rt octets) = Inl e"
  then show "generateImage rt aws this options = Inl (generation_failed (message_of e))"
    by (simp add: generateImage_wraps try_parse_failure)
next
  fix response octets r kvs
  assume "send_invoke aws (generation_client this options) (generation_command rt options)
            = Inr response" "body response = Some octets"
    "JSON_parse rt (TextDecoder_decode rt octets) = Inr (JObj r kvs)"
    "own_property kvs (str ''images'') = JUndefined"
  then show "generateImage rt aws this options =
               Inl (generation_failed (str ''No images returned from model''))"
    by (simp add: generateImage_wraps try_parsed and_then_def)
next
  fix response octets r kvs r'
  assume "send_invoke aws (generation_client this options) (generation_command rt options)
            = Inr response" "body response = Some octets"
    "JSON_parse rt (TextDecoder_decode rt octets) = Inr (JObj r kvs)"
    "own_property kvs (str ''images'') = JArr r' []"
  then show "generateImage rt aws this options =
               Inl (generation_failed (str ''No images returned from model''))"
    by (simp add: generateImage_wraps try_parsed and_then_def num_eq_def)
next
  fix response octets r kvs r' x xs
  assume "send_invoke aws (generation_client this options) (generation_command rt options)
            = Inr response" "body response = Some octets"
    "JSON_parse rt (TextDecoder_decode rt octets) = Inr (JObj r kvs)"
    "own_property kvs (str ''images'') = JArr r' (x # xs)" "x = JNull \<or> x = JStr []"
  then show "generateImage rt aws this options =
               Inl (generation_failed (str ''No image data found in response''))"
    by (auto simp: generateImage_wraps try_parsed and_then_def num_eq_def)
next
  fix e
  assume "generateImage rt aws this options = Inl e"
  then show "\<exists>m. e = generation_failed m"
    by (auto simp: generateImage_wraps split: sum.splits)
qed

theorem generation_failures_are_wrapped_witness:
  "generateImage sample_runtime (mock_bedrock (Inl throttled) (Inl throttled))
     (new_ImageAssertions None) sample_generation
     = Inl (generation_failed (str ''Too many requests''))
   \<and> generateImage sample_runtime (mock_bedrock (Inr \<lparr>body = None\<rparr>) (Inl throttled))
     (new_ImageAssertions None) sample_generation
     = Inl (generation_failed (str ''No response body received from model''))
   \<and> generateImage sample_runtime
       (mock_bedrock (Inr \<lparr>body = Some (str ''oops'')\<rparr>) (Inl throttled))
       (new_ImageAssertions None) sample_generation
     = Inl (generation_failed (str ''Unexpected token''))
   \<and> generateImage sample_runtime
       (mock_bedrock (Inr \<lparr>body = Some no_images_key_text\<rparr>) (Inl throttled))
       (new_ImageAssertions None) sample_generation
     = Inl (generation_failed (str ''No images returned from model''))
   \<and> generateImage sample_runtime
       (mock_bedrock (Inr \<lparr>body = Some images_empty_text\<rparr>) (Inl throttled))
       (new_ImageAssertions None) sample_generation
     = Inl (generation_failed (str ''No images returned from model''))
   \<and> generateImage sample_runtime
       (mock_bedrock (Inr \<lparr>body = Some images_null_text\<rparr>) (Inl throttled))
       (new_ImageAssertions None) sample_generation
     = Inl (generation_failed (str ''No image data found in response''))
   \<and> generateImage sample_runtime
       (mock_bedrock (Inr \<lparr>body = Some images_blank_text\<rparr>) (Inl throttled))
       (new_ImageAssertions None) sample_generation
     = Inl (generation_failed (str ''No image data found in response''))"
proof -
  note w = generation_failures_are_wrapped [where rt = sample_runtime
      and this = "new_ImageAssertions None" and options = sample_generation]
  have images: "own_property [(str ''images'', v)] (str ''images'') = v"
    "own_property [] (str ''images'') = JUndefined" for v
    by (simp_all add: own_property_def)
  show ?thesis
    using w [of "mock_bedrock (Inl throttled) (Inl throttled)"]
      w [of "mock_bedrock (Inr \<lparr>body = None\<rparr>) (Inl throttled)"]
      w [of "mock_bedrock (Inr \<lparr>body = Some (str ''oops'')\<rparr>) (Inl throttled)"]
      w [of "mock_bedrock (Inr \<lparr>body = Some no_images_key_text\<rparr>) (Inl throttled)"]
      w [of "mock_bedrock (Inr \<lparr>body = Some images_empty_text\<rparr>) (Inl throttled)"]
      w [of "mock_bedrock (Inr \<lparr>body = Some images_null_text\<rparr>) (Inl throttled)"]
      w [of "mock_bedrock (Inr \<lparr>body = Some images_blank_text\<rparr>) (Inl throttled)"]
    by (simp add: mock_replies sample_bodies images throttled_def)
qed

subsection \<open>C5\<close>

text \<open>
  Claim C5. A reply wrapped in a markdown code fence should give the verdict of the same
  reply without the fence. The source does not do so for the JSON text
  \<open>quoting_verdict_text\<close>, whose explanation is the string \<^verbatim>\<open>```json\<close>: the replacements
  of lines 296 and 297 are not anchored, so on the bare reply the first one removes the
  marker inside the string (the explanation becomes empty), and on the fenced reply the
  second one removes the backticks inside the string and not the closing fence (the
  explanation becomes \<^verbatim>\<open>json\<close>). The two verdicts differ, and neither has the
  explanation the model gave.
\<close>

theorem fenced_reply_differs_for_quoted_marker:
  "snd (validateImage sample_runtime
          (mock_bedrock (Inl throttled) (Inr (text_reply (in_code_fence quoting_verdict_text))))
          (new_ImageAssertions None) (sample_input None))
     = Inr \<lparr>assertionsMet = JBool True, score = JNum (Finite 9),
            tone = JStr (str ''dreamy''), explanation = JStr (str ''json'')\<rparr>
   \<and> snd (validateImage sample_runtime
          (mock_bedrock (Inl throttled) (Inr (text_reply quoting_verdict_text)))
          (new_ImageAssertions None) (sample_input None))
     = Inr \<lparr>assertionsMet = JBool True, score = JNum (Finite 9),
            tone = JStr (str ''dreamy''), explanation = JStr []\<rparr>
   \<and> snd (validateImage sample_runtime
          (mock_bedrock (Inl throttled) (Inr (text_reply (in_code_fence quoting_verdict_text))))
          (new_ImageAssertions None) (sample_input None))
     \<noteq> snd (validateImage sample_runtime
          (mock_bedrock (Inl throttled) (Inr (text_reply quoting_verdict_text)))
          (new_ImageAssertions None) (sample_input None))
   \<and> jsonMatch (in_code_fence quoting_verdict_text) = Some quoting_fenced_span
   \<and> jsonMatch quoting_verdict_text = Some quoting_unfenced_span"
  by (simp add: sample_verdicts sample_spans str_def)

subsection \<open>C6\<close>



subsection \<open>C7\<close>

text \<open>
  Claim C7. When the reply yields a JSON object, every verdict \<open>validateImage\<close> returns
  has the object's \<^verbatim>\<open>score\<close>, \<^verbatim>\<open>tone\<close> and \<^verbatim>\<open>explanation\<close> unchanged, whatever
  values they are (a score outside 0 to 10, a tone outside the enumeration). A verdict is
  returned exactly when the comparison of the score with the threshold does not throw,
  which is so whenever the score is primitive; when the comparison throws (a score that
  is an object with an own \<^verbatim>\<open>toString\<close>), \<open>validateImage\<close> throws the same.
\<close>

theorem verdict_passes_parsed_values_through:
  assumes "imageBytes options \<noteq> None \<or> present (base64Image options)"
    and "present (assertionPrompt options)"
    and "send_converse aws (region this)
           (validation_command rt options (or_default [] (assertionPrompt options))) = Inr response"
    and "first_text response = Inr (Some c)"
    and "jsonMatch c = Some jm"
    and "JSON_parse rt (trim jm) = Inr (JObj r kvs)"
  shows "(\<forall>v. snd (validateImage rt aws this options) = Inr v \<longrightarrow>
            score v = own_property kvs (str ''score'')
            \<and> tone v = own_property kvs (str ''tone'')
            \<and> explanation v = own_property kvs (str ''explanation''))
         \<and> ((\<exists>v. snd (validateImage rt aws this options) = Inr v) \<longleftrightarrow>
              (\<exists>reached. js_ge rt (own_property kvs (str ''score''))
                            (JNum (or_default (Finite 7) (confidenceThreshold options)))
                          = Inr reached))
         \<and> (\<forall>e. js_ge rt (own_property kvs (str ''score''))
                    (JNum (or_default (Finite 7) (confidenceThreshold options))) = Inl e \<longrightarrow>
                 snd (validateImage rt aws this options) = Inl e)
         \<and> (is_primitive (own_property kvs (str ''score'')) \<longrightarrow>
              (\<exists>v. snd (validateImage rt aws this options) = Inr v))"
proof -
  let ?ge = "js_ge rt (own_property kvs (str ''score''))
               (JNum (or_default (Finite 7) (confidenceThreshold options)))"
  have result: "snd (validateImage rt aws this options) =
      and_then ?ge (\<lambda>reached.
        Inr \<lparr>assertionsMet =
               (if reached then own_property kvs (str ''assertionsMet'') else JBool False),
             score = own_property kvs (str ''score''),
             tone = own_property kvs (str ''tone''),
             explanation = own_property kvs (str ''explanation'')\<rparr>)"
    using validateImage_parsed [OF assms] by (simp add: verdict_of_object)
  have primitive: "is_primitive (own_property kvs (str ''score'')) \<Longrightarrow> \<exists>reached. ?ge = Inr reached"
    by (rule js_ge_primitive)
  show ?thesis
    using primitive by (cases ?ge) (auto simp: result and_then_def)
qed

theorem verdict_passes_parsed_values_through_witness:
  "snd (validateImage sample_runtime
          (mock_bedrock (Inl throttled) (Inr (text_reply sepia_verdict_text)))
          (new_ImageAssertions None) (sample_input None))
     = Inr \<lparr>assertionsMet = JBool False, score = JNum (Finite 42),
            tone = JStr (str ''sepia''), explanation = JStr (str ''Old photograph.'')\<rparr>
   \<and> snd (validateImage sample_runtime
          (mock_bedrock (Inl throttled) (Inr (text_reply unconvertible_score_text)))
          (new_ImageAssertions None) (sample_input None))
     = Inl cannot_convert"
proof -
  have sepia: "own_property sepia_verdict_fields (str ''score'') = JNum (Finite 42)"
    "own_property sepia_verdict_fields (str ''assertionsMet'') = JBool False"
    "own_property sepia_verdict_fields (str ''tone'') = JStr (str ''sepia'')"
    "own_property sepia_verdict_fields (str ''explanation'') = JStr (str ''Old photograph.'')"
    by (simp_all add: own_property_def sepia_verdict_fields_def str_def)
  have throws: "js_ge sample_runtime (own_property unconvertible_score_fields (str ''score''))
                  (JNum (or_default (Finite 7) (confidenceThreshold (sample_input None))))
                = Inl cannot_convert"
    by (simp add: own_property_def unconvertible_score_fields_def js_ge_def IsLessThan_def
        and_then_def)
  note through =
    verdict_passes_parsed_values_through [where options = "sample_input None"
      and rt = sample_runtime
      and aws = "mock_bedrock (Inl throttled) (Inr (text_reply sepia_verdict_text))"
      and this = "new_ImageAssertions None",
      OF sample_valid mock_replies(1) first_text_text_reply sample_spans(2) sample_parses(2)]
  note thrown =
    verdict_passes_parsed_values_through [where options = "sample_input None"
      and rt = sample_runtime
      and aws = "mock_bedrock (Inl throttled) (Inr (text_reply unconvertible_score_text))"
      and this = "new_ImageAssertions None",
      OF sample_valid mock_replies(1) first_text_text_reply sample_spans(5) sample_parses(5)]
  from through obtain v where v: "snd (validateImage sample_runtime
          (mock_bedrock (Inl throttled) (Inr (text_reply sepia_verdict_text)))
          (new_ImageAssertions None) (sample_input None)) = Inr v"
    by (auto simp: sepia)
  with through have "score v = JNum (Finite 42)" "tone v = JStr (str ''sepia'')"
    "explanation v = JStr (str ''Old photograph.'')"
    by (simp_all add: sepia)
  moreover have "assertionsMet v = JBool False"
    using v validateImage_parsed [where options = "sample_input None" and rt = sample_runtime
        and aws = "mock_bedrock (Inl throttled) (Inr (text_reply sepia_verdict_text))"
        and this = "new_ImageAssertions None",
        OF sample_valid mock_replies(1) first_text_text_reply sample_spans(2) sample_parses(2)]
    by (auto simp: verdict_of_object sepia js_ge_numbers and_then_def or_default_def
        sample_input_def)
  ultimately have "v = \<lparr>assertionsMet = JBool False, score = JNum (Finite 42),
            tone = JStr (str ''sepia''), explanation = JStr (str ''Old photograph.'')\<rparr>"
    by (cases v) simp
  with v thrown throws show ?thesis
    by simp
qed

subsection \<open>C8\<close>

text \<open>
  Claim C8. \<open>validateImage\<close> depends on the service only through the reply to the one
  command it sends: two runs on the same input, against services that may differ in
  everything else, give the same result when that reply is the same.
\<close>

theorem same_reply_same_verdict:
  assumes "send_converse aws1 (region this)
             (validation_command rt options (or_default [] (assertionPrompt options))) = reply"
    and "send_converse aws2 (region this)
             (validation_command rt options (or_default [] (assertionPrompt options))) = reply"
  shows "validateImage rt aws1 this options = validateImage rt aws2 this options"
  using assms by (simp add: validateImage_def Let_def)

theorem same_reply_same_verdict_witness:
  "validateImage sample_runtime
     (mock_bedrock (Inl throttled) (Inr (text_reply cat_verdict_text)))
     (new_ImageAssertions None) (sample_input None)
   = validateImage sample_runtime
     (mock_bedrock (Inr \<lparr>body = None\<rparr>) (Inr (text_reply cat_verdict_text)))
     (new_ImageAssertions None) (sample_input None)"
  by (rule same_reply_same_verdict [OF mock_replies(1) mock_replies(1)])

subsection \<open>C9\<close>

text \<open>
  Claim C9. For every verdict the matcher returns a passing result on the empty
  expectation.
\<close>

theorem empty_expectation_passes:
  "passes (toSatisfyImageAssertions rt utils V [])"
  by (simp add: passes_iff)

theorem empty_expectation_passes_witness:
  "passes (toSatisfyImageAssertions sample_runtime sample_utils sample_verdict [])"
  by (rule empty_expectation_passes)

subsection \<open>C10\<close>

text \<open>
  Claim C10. An empty \<^verbatim>\<open>base64Image\<close> is treated as an absent one: without
  \<^verbatim>\<open>imageBytes\<close> the call fails with the missing-image error and sends nothing, and in
  every case the result is that of the call without \<^verbatim>\<open>base64Image\<close>. Likewise an empty
  \<^verbatim>\<open>assertionPrompt\<close> gives the result of the call without one: a precondition error,
  and nothing sent.
\<close>

theorem empty_string_counts_as_absent:
  "(imageBytes options = None \<and> base64Image options = Some [] \<longrightarrow>
      validateImage rt aws this options = ([], Inl missing_image))
   \<and> (base64Image options = Some [] \<longrightarrow>
        validateImage rt aws this options =
          validateImage rt aws this (options\<lparr>base64Image := None\<rparr>))
   \<and> (assertionPrompt options = Some [] \<longrightarrow>
        validateImage rt aws this options =
          validateImage rt aws this (options\<lparr>assertionPrompt := None\<rparr>)
        \<and> fst (validateImage rt aws this options) = []
        \<and> (snd (validateImage rt aws this options) = Inl missing_image
             \<or> snd (validateImage rt aws this options) = Inl missing_assertion))"
  by (auto simp: validateImage_def present_def missing_image_def missing_assertion_def
      validation_command_def Let_def or_default_def split: option.splits)

theorem empty_string_counts_as_absent_witness:
  "validateImage sample_runtime (mock_bedrock (Inl throttled) (Inl throttled))
     (new_ImageAssertions None)
     ((sample_input None)\<lparr>imageBytes := None, base64Image := Some []\<rparr>)
     = ([], Inl missing_image)
   \<and> validateImage sample_runtime (mock_bedrock (Inl throttled) (Inl throttled))
     (new_ImageAssertions None) ((sample_input None)\<lparr>assertionPrompt := Some []\<rparr>)
     = validateImage sample_runtime (mock_bedrock (Inl throttled) (Inl throttled))
     (new_ImageAssertions None) ((sample_input None)\<lparr>assertionPrompt := None\<rparr>)"
  using
    empty_string_counts_as_absent
      [of "(sample_input None)\<lparr>imageBytes := None, base64Image := Some []\<rparr>"
        sample_runtime "mock_bedrock (Inl throttled) (Inl throttled)" "new_ImageAssertions None"]
    empty_string_counts_as_absent [of "(sample_input None)\<lparr>assertionPrompt := Some []\<rparr>"
      sample_runtime "mock_bedrock (Inl throttled) (Inl throttled)" "new_ImageAssertions None"]
  by (simp add: sample_input_def)

end
